theory Spec2Isabelle
  imports Complex_Main
begin

section \<open>Numbers and errors\<close>

text \<open>
  The program is JavaScript; every number in it is a double. The development has two
  parts. The first reads the numbers as reals: the inputs are finite numbers, and rounding
  and overflow are not modelled. It is used for the statements about the structure of the
  program that hold whatever the numbers are: which gain enters which channel, the
  algebra of the motor mixing, the switching term of the sliding mode controller, the
  dispatch on ids, the waypoint walker. In this part a division whose divisor is zero,
  which gives \<^verbatim>\<open>Infinity\<close> or \<^verbatim>\<open>NaN\<close> in JavaScript and never raises, has no real value,
  and a function that would compute one returns \<open>Inl NotFinite\<close>. \<open>TypeError\<close> is the
  exception JavaScript raises when a property of \<^verbatim>\<open>undefined\<close> is read or a non-function
  is called.

  The second part writes the plant step and the PID and MPC controllers over the numbers
  of JavaScript themselves, with \<^verbatim>\<open>NaN\<close>, the infinities and rounding. It is used for
  the statements whose truth depends on them: the bounds on height, motor speeds, thrust
  and attitude, the exact value of the predictive controller's formula, and the published
  prediction.
\<close>

datatype error = TypeError | NotFinite

section \<open>physics.js: parameters and motor allocation\<close>

record params =
  p_m :: real
  p_g :: real
  p_Ixx :: real
  p_Iyy :: real
  p_Izz :: real
  p_L :: real
  p_kT :: real
  p_kD :: real
  p_Cd :: real
  p_wMax :: real
  p_wMin :: real

definition PARAMS :: params where
  "PARAMS = \<lparr> p_m = 0.5, p_g = 9.81, p_Ixx = 0.0023, p_Iyy = 0.0023, p_Izz = 0.004,
     p_L = 0.17, p_kT = 2.98 / 10 ^ 6, p_kD = 1.14 / 10 ^ 7, p_Cd = 0.04,
     p_wMax = 2200, p_wMin = 0 \<rparr>"

text \<open>
  The twelve state scalars are the fields every state object has; the object that
  \<^verbatim>\<open>createState\<close> makes and \<^verbatim>\<open>step\<close> updates has the motor speeds as well, the
  intermediate objects of \<^verbatim>\<open>addScaled\<close> do not.
\<close>

record pose =
  state_x :: real
  state_y :: real
  state_z :: real
  state_vx :: real
  state_vy :: real
  state_vz :: real
  state_phi :: real
  state_theta :: real
  state_psi :: real
  state_p :: real
  state_q :: real
  state_r :: real

record state = pose +
  state_motors :: "real list"

definition createState :: state where
  "createState = \<lparr> state_x = 0, state_y = 0, state_z = 0,
     state_vx = 0, state_vy = 0, state_vz = 0,
     state_phi = 0, state_theta = 0, state_psi = 0,
     state_p = 0, state_q = 0, state_r = 0,
     state_motors = [0, 0, 0, 0] \<rparr>"

definition clamp :: "real \<Rightarrow> real \<Rightarrow> real \<Rightarrow> real" where
  "clamp v lo hi = max lo (min hi v)"

text \<open>The input vector \<^verbatim>\<open>[T, tau_phi, tau_theta, tau_psi]\<close>.\<close>

type_synonym input = "real \<times> real \<times> real \<times> real"

text \<open>
  \<^verbatim>\<open>allocateMotors\<close>, first half: the four squared speeds before they are clamped
  (the inverse of the mixing matrix).
\<close>

definition omegaSq :: "real \<Rightarrow> real \<Rightarrow> real \<Rightarrow> real \<Rightarrow> real list" where
  "omegaSq T tauPhi tauTheta tauPsi =
     (let kT = p_kT PARAMS; kD = p_kD PARAMS; L = p_L PARAMS;
          s2 = sqrt 2;
          a = T / (4 * kT);
          b = tauPhi * s2 / (4 * kT * L);
          c = tauTheta * s2 / (4 * kT * L);
          d = tauPsi / (4 * kD)
      in [a - b - c - d, a - b + c + d, a + b + c - d, a + b - c + d])"

text \<open>\<^verbatim>\<open>allocateMotors\<close>, second half: clamp each to \<open>[0, wMax\<^sup>2]\<close>, take the root.\<close>

definition allocateMotors :: "real \<Rightarrow> real \<Rightarrow> real \<Rightarrow> real \<Rightarrow> real list" where
  "allocateMotors T tauPhi tauTheta tauPsi =
     (let wMaxSq = p_wMax PARAMS * p_wMax PARAMS
      in map (\<lambda>wsq. sqrt (clamp wsq 0 wMaxSq)) (omegaSq T tauPhi tauTheta tauPsi))"

text \<open>
  The forward mixing of the X configuration, as the comment above \<^verbatim>\<open>createState\<close> gives
  it: from the four motor speeds to thrust and torques.
\<close>

definition forwardMix :: "real list \<Rightarrow> input" where
  "forwardMix w =
     (let kT = p_kT PARAMS; kD = p_kD PARAMS; L = p_L PARAMS;
          w1 = w ! 0; w2 = w ! 1; w3 = w ! 2; w4 = w ! 3
      in (kT * (w1\<^sup>2 + w2\<^sup>2 + w3\<^sup>2 + w4\<^sup>2),
          kT * L * (- w1\<^sup>2 - w2\<^sup>2 + w3\<^sup>2 + w4\<^sup>2) / sqrt 2,
          kT * L * (- w1\<^sup>2 + w2\<^sup>2 + w3\<^sup>2 - w4\<^sup>2) / sqrt 2,
          kD * (- w1\<^sup>2 + w2\<^sup>2 - w3\<^sup>2 + w4\<^sup>2)))"

text \<open>\<^verbatim>\<open>x || 0\<close>, for a number that may be missing.\<close>

definition orZero :: "real option \<Rightarrow> real" where
  "orZero v = (case v of None \<Rightarrow> 0 | Some r \<Rightarrow> r)"

section \<open>controllers.js: gains and internal state\<close>

text \<open>
  A setpoint always has a position; the feed-forward velocity and the yaw may be missing,
  and the controllers read them as \<^verbatim>\<open>target.vx || 0\<close>.
\<close>

record setpoint =
  target_x :: real
  target_y :: real
  target_z :: real
  target_vx :: "real option"
  target_vy :: "real option"
  target_vz :: "real option"
  target_yaw :: "real option"

record pid_gains =
  pid_Kp_xy :: real
  pid_Ki_xy :: real
  pid_Kd_xy :: real
  pid_Kp_z :: real
  pid_Ki_z :: real
  pid_Kd_z :: real
  pid_Kp_att :: real
  pid_Kd_att :: real
  pid_Kp_yaw :: real
  pid_Kd_yaw :: real
  pid_iMax :: real

record smc_gains =
  smc_lambda_xy :: real
  smc_lambda_z :: real
  smc_eta_xy :: real
  smc_eta_z :: real
  smc_phi_xy :: real
  smc_phi_z :: real
  smc_lambda_att :: real
  smc_eta_att :: real
  smc_phi_att :: real

record sts_gains =
  sts_lambda_xy :: real
  sts_lambda_z :: real
  sts_alpha1_xy :: real
  sts_alpha2_xy :: real
  sts_alpha1_z :: real
  sts_alpha2_z :: real
  sts_lambda_att :: real
  sts_alpha1_att :: real
  sts_alpha2_att :: real

text \<open>The horizon \<open>N\<close> is a count of steps (the slider moves it in steps of one).\<close>

record mpc_gains =
  mpc_N :: nat
  mpc_Q_pos :: real
  mpc_Q_vel :: real
  mpc_R :: real
  mpc_Kp_att :: real
  mpc_Kd_att :: real

datatype gains = PIDGains pid_gains | SMCGains smc_gains | STSGains sts_gains | MPCGains mpc_gains

definition defaultGains_PID :: pid_gains where
  "defaultGains_PID = \<lparr> pid_Kp_xy = 4.0, pid_Ki_xy = 0.2, pid_Kd_xy = 3.0,
     pid_Kp_z = 8.0, pid_Ki_z = 0.5, pid_Kd_z = 5.0,
     pid_Kp_att = 12.0, pid_Kd_att = 4.0, pid_Kp_yaw = 3.0, pid_Kd_yaw = 1.5,
     pid_iMax = 2.0 \<rparr>"

definition defaultGains_SMC :: smc_gains where
  "defaultGains_SMC = \<lparr> smc_lambda_xy = 2.5, smc_lambda_z = 3.0,
     smc_eta_xy = 3.0, smc_eta_z = 5.0, smc_phi_xy = 0.0, smc_phi_z = 0.0,
     smc_lambda_att = 8.0, smc_eta_att = 4.0, smc_phi_att = 0.1 \<rparr>"

definition defaultGains_STS :: sts_gains where
  "defaultGains_STS = \<lparr> sts_lambda_xy = 2.5, sts_lambda_z = 3.0,
     sts_alpha1_xy = 5.0, sts_alpha2_xy = 3.0, sts_alpha1_z = 8.0, sts_alpha2_z = 5.0,
     sts_lambda_att = 8.0, sts_alpha1_att = 10.0, sts_alpha2_att = 6.0 \<rparr>"

definition defaultGains_MPC :: mpc_gains where
  "defaultGains_MPC = \<lparr> mpc_N = 10, mpc_Q_pos = 8.0, mpc_Q_vel = 2.0, mpc_R = 0.1,
     mpc_Kp_att = 12.0, mpc_Kd_att = 4.0 \<rparr>"

record prediction =
  pred_x :: real
  pred_y :: real
  pred_z :: real

text \<open>
  The controller's internal state \<^verbatim>\<open>intState\<close>. The object that \<^verbatim>\<open>resetInternal\<close>
  makes has no \<^verbatim>\<open>mpcPrediction\<close>; \<^verbatim>\<open>computeMPC\<close> adds it.
\<close>

record intState =
  int_iEx :: real
  int_iEy :: real
  int_iEz :: real
  int_v_x :: real
  int_v_y :: real
  int_v_z :: real
  int_v_phi :: real
  int_v_theta :: real
  int_v_psi :: real
  int_s_x :: real
  int_s_y :: real
  int_s_z :: real
  int_s_phi :: real
  int_s_theta :: real
  int_T :: real
  int_tau_phi :: real
  int_tau_theta :: real
  int_tau_psi :: real
  int_mpcPrediction :: "prediction list option"

definition resetInternal :: intState where
  "resetInternal = \<lparr> int_iEx = 0, int_iEy = 0, int_iEz = 0,
     int_v_x = 0, int_v_y = 0, int_v_z = 0, int_v_phi = 0, int_v_theta = 0, int_v_psi = 0,
     int_s_x = 0, int_s_y = 0, int_s_z = 0, int_s_phi = 0, int_s_theta = 0,
     int_T = 0, int_tau_phi = 0, int_tau_theta = 0, int_tau_psi = 0,
     int_mpcPrediction = None \<rparr>"

section \<open>controllers.js: switching functions and the thrust and attitude block\<close>

definition sign :: "real \<Rightarrow> real" where
  "sign x = (if x > 0 then 1 else (if x < 0 then - 1 else 0))"

definition sat :: "real \<Rightarrow> real \<Rightarrow> real" where
  "sat s phi =
     (if phi \<le> 0 then sign s
      else let v = s / phi in if \<bar>v\<bar> \<le> 1 then v else sign v)"

text \<open>
  \<^verbatim>\<open>Math.atan2(y, x)\<close> on reals (there is no signed zero here, so the value at the
  origin is \<open>0\<close>).
\<close>

definition atan2 :: "real \<Rightarrow> real \<Rightarrow> real" where
  "atan2 y x =
     (if x > 0 then arctan (y / x)
      else if x < 0 then (if y \<ge> 0 then arctan (y / x) + pi else arctan (y / x) - pi)
      else if y > 0 then pi / 2
      else if y < 0 then - (pi / 2)
      else 0)"

text \<open>
  The named constants of a controller's body that the claims speak about: the desired
  accelerations of the outer loop, the thrust, the desired roll and pitch, the torques.
\<close>

record locals =
  l_ax_des :: real
  l_ay_des :: real
  l_az_des :: real
  l_T :: real
  l_phi_des :: real
  l_theta_des :: real
  l_tau_phi :: real
  l_tau_theta :: real
  l_tau_psi :: real

text \<open>
  The block that turns the desired acceleration into thrust and desired roll and pitch.
  The source has it four times, once in each controller, the same text each time.
\<close>

definition thrustAttitude :: "state \<Rightarrow> real \<Rightarrow> real \<Rightarrow> real \<Rightarrow> real \<times> real \<times> real" where
  "thrustAttitude state ax_des ay_des az_des =
     (let m = p_m PARAMS; g = p_g PARAMS;
          cphi = cos (state_phi state); cth = cos (state_theta state);
          T = clamp (m * (g + ay_des) / max (cphi * cth) 0.1) 0 (m * g * 4);
          psi = state_psi state;
          cpsi = cos psi; spsi = sin psi;
          phi_des = clamp (arcsin (clamp (m * (ax_des * spsi - az_des * cpsi) / max T 0.1)
                                     (- 0.8) 0.8)) (- 0.6) 0.6;
          theta_des = clamp (atan2 (ax_des * cpsi + az_des * spsi) (g + ay_des)) (- 0.6) 0.6
      in (T, phi_des, theta_des))"

section \<open>controllers.js: the four controllers\<close>

text \<open>
  Each controller reads and writes \<^verbatim>\<open>intState\<close>; the model takes it as its first
  argument and returns it updated. \<open>compute..._locals\<close> is the body of the source function
  with its named constants kept; \<open>compute...\<close> returns what the source returns, the array
  \<^verbatim>\<open>[T, tau_phi, tau_theta, tau_psi]\<close>.
\<close>

definition computePID_locals ::
  "intState \<Rightarrow> state \<Rightarrow> setpoint \<Rightarrow> pid_gains \<Rightarrow> real \<Rightarrow> locals \<times> intState" where
  "computePID_locals ist state target G dt =
     (let ex = target_x target - state_x state;
          ey = target_y target - state_y state;
          ez = target_z target - state_z state;
          evx = orZero (target_vx target) - state_vx state;
          evy = orZero (target_vy target) - state_vy state;
          evz = orZero (target_vz target) - state_vz state;
          iEx = clamp (int_iEx ist + ex * dt) (- pid_iMax G) (pid_iMax G);
          iEy = clamp (int_iEy ist + ey * dt) (- pid_iMax G) (pid_iMax G);
          iEz = clamp (int_iEz ist + ez * dt) (- pid_iMax G) (pid_iMax G);
          ax_des = pid_Kp_xy G * ex + pid_Ki_xy G * iEx + pid_Kd_xy G * evx;
          ay_des = pid_Kp_z G * ey + pid_Ki_z G * iEy + pid_Kd_z G * evy;
          az_des = pid_Kp_xy G * ez + pid_Ki_xy G * iEz + pid_Kd_xy G * evz
      in case thrustAttitude state ax_des ay_des az_des of (T, phi_des, theta_des) \<Rightarrow>
      let psi_des = orZero (target_yaw target);
          tau_phi = pid_Kp_att G * (phi_des - state_phi state) - pid_Kd_att G * state_p state;
          tau_theta = pid_Kp_att G * (theta_des - state_theta state) - pid_Kd_att G * state_q state;
          tau_psi = pid_Kp_yaw G * (psi_des - state_psi state) - pid_Kd_yaw G * state_r state
      in (\<lparr> l_ax_des = ax_des, l_ay_des = ay_des, l_az_des = az_des, l_T = T,
             l_phi_des = phi_des, l_theta_des = theta_des,
             l_tau_phi = tau_phi, l_tau_theta = tau_theta, l_tau_psi = tau_psi \<rparr>,
          ist\<lparr> int_iEx := iEx, int_iEy := iEy, int_iEz := iEz,
               int_s_x := ex, int_s_y := ey, int_s_z := ez,
               int_T := T, int_tau_phi := tau_phi,
               int_tau_theta := tau_theta, int_tau_psi := tau_psi \<rparr>))"

definition returned :: "locals \<times> intState \<Rightarrow> input \<times> intState" where
  "returned r = (case r of (l, ist') \<Rightarrow> ((l_T l, l_tau_phi l, l_tau_theta l, l_tau_psi l), ist'))"

definition computePID ::
  "intState \<Rightarrow> state \<Rightarrow> setpoint \<Rightarrow> pid_gains \<Rightarrow> real \<Rightarrow> input \<times> intState" where
  "computePID ist state target G dt = returned (computePID_locals ist state target G dt)"

definition computeSMC_locals ::
  "intState \<Rightarrow> state \<Rightarrow> setpoint \<Rightarrow> smc_gains \<Rightarrow> real \<Rightarrow> locals \<times> intState" where
  "computeSMC_locals ist state target G dt =
     (let ex = target_x target - state_x state; evx = orZero (target_vx target) - state_vx state;
          ey = target_y target - state_y state; evy = orZero (target_vy target) - state_vy state;
          ez = target_z target - state_z state; evz = orZero (target_vz target) - state_vz state;
          sx = evx + smc_lambda_xy G * ex;
          sy = evy + smc_lambda_z G * ey;
          sz = evz + smc_lambda_xy G * ez;
          ax_des = smc_lambda_xy G * evx + smc_eta_xy G * sat sx (smc_phi_xy G);
          ay_des = smc_lambda_z G * evy + smc_eta_z G * sat sy (smc_phi_z G);
          az_des = smc_lambda_xy G * evz + smc_eta_xy G * sat sz (smc_phi_xy G)
      in case thrustAttitude state ax_des ay_des az_des of (T, phi_des, theta_des) \<Rightarrow>
      let s_phi = - state_p state + smc_lambda_att G * (phi_des - state_phi state);
          s_theta = - state_q state + smc_lambda_att G * (theta_des - state_theta state);
          s_psi = - state_r state + smc_lambda_att G * (0 - state_psi state);
          tau_phi = p_Ixx PARAMS * (smc_lambda_att G * (- state_p state)
                      + smc_eta_att G * sat s_phi (smc_phi_att G));
          tau_theta = p_Iyy PARAMS * (smc_lambda_att G * (- state_q state)
                      + smc_eta_att G * sat s_theta (smc_phi_att G));
          tau_psi = p_Izz PARAMS * (smc_lambda_att G * (- state_r state)
                      + smc_eta_att G * sat s_psi (smc_phi_att G))
      in (\<lparr> l_ax_des = ax_des, l_ay_des = ay_des, l_az_des = az_des, l_T = T,
             l_phi_des = phi_des, l_theta_des = theta_des,
             l_tau_phi = tau_phi, l_tau_theta = tau_theta, l_tau_psi = tau_psi \<rparr>,
          ist\<lparr> int_s_x := sx, int_s_y := sy, int_s_z := sz,
               int_s_phi := s_phi, int_s_theta := s_theta,
               int_T := T, int_tau_phi := tau_phi,
               int_tau_theta := tau_theta, int_tau_psi := tau_psi \<rparr>))"

definition computeSMC ::
  "intState \<Rightarrow> state \<Rightarrow> setpoint \<Rightarrow> smc_gains \<Rightarrow> real \<Rightarrow> input \<times> intState" where
  "computeSMC ist state target G dt = returned (computeSMC_locals ist state target G dt)"

text \<open>
  In the super-twisting controller the yaw accumulator is read as
  \<^verbatim>\<open>intState.v_psi || 0\<close>, which is the accumulator itself for every number.
\<close>

definition computeSTS_locals ::
  "intState \<Rightarrow> state \<Rightarrow> setpoint \<Rightarrow> sts_gains \<Rightarrow> real \<Rightarrow> locals \<times> intState" where
  "computeSTS_locals ist state target G dt =
     (let ex = target_x target - state_x state; evx = orZero (target_vx target) - state_vx state;
          ey = target_y target - state_y state; evy = orZero (target_vy target) - state_vy state;
          ez = target_z target - state_z state; evz = orZero (target_vz target) - state_vz state;
          sx = evx + sts_lambda_xy G * ex;
          sy = evy + sts_lambda_z G * ey;
          sz = evz + sts_lambda_xy G * ez;
          v_x = int_v_x ist + - sts_alpha2_xy G * sign sx * dt;
          v_y = int_v_y ist + - sts_alpha2_z G * sign sy * dt;
          v_z = int_v_z ist + - sts_alpha2_xy G * sign sz * dt;
          ax_des = sts_alpha1_xy G * sqrt \<bar>sx\<bar> * sign sx + v_x;
          ay_des = sts_alpha1_z G * sqrt \<bar>sy\<bar> * sign sy + v_y;
          az_des = sts_alpha1_xy G * sqrt \<bar>sz\<bar> * sign sz + v_z
      in case thrustAttitude state ax_des ay_des az_des of (T, phi_des, theta_des) \<Rightarrow>
      let s_phi = - state_p state + sts_lambda_att G * (phi_des - state_phi state);
          s_theta = - state_q state + sts_lambda_att G * (theta_des - state_theta state);
          s_psi = - state_r state + sts_lambda_att G * (0 - state_psi state);
          v_phi = int_v_phi ist + - sts_alpha2_att G * sign s_phi * dt;
          v_theta = int_v_theta ist + - sts_alpha2_att G * sign s_theta * dt;
          v_psi = int_v_psi ist + - sts_alpha2_att G * sign s_psi * dt;
          tau_phi = p_Ixx PARAMS * (sts_alpha1_att G * sqrt \<bar>s_phi\<bar> * sign s_phi + v_phi);
          tau_theta = p_Iyy PARAMS * (sts_alpha1_att G * sqrt \<bar>s_theta\<bar> * sign s_theta + v_theta);
          tau_psi = p_Izz PARAMS * (sts_alpha1_att G * sqrt \<bar>s_psi\<bar> * sign s_psi + v_psi)
      in (\<lparr> l_ax_des = ax_des, l_ay_des = ay_des, l_az_des = az_des, l_T = T,
             l_phi_des = phi_des, l_theta_des = theta_des,
             l_tau_phi = tau_phi, l_tau_theta = tau_theta, l_tau_psi = tau_psi \<rparr>,
          ist\<lparr> int_s_x := sx, int_s_y := sy, int_s_z := sz,
               int_v_x := v_x, int_v_y := v_y, int_v_z := v_z,
               int_s_phi := s_phi, int_s_theta := s_theta,
               int_v_phi := v_phi, int_v_theta := v_theta, int_v_psi := v_psi,
               int_T := T, int_tau_phi := tau_phi,
               int_tau_theta := tau_theta, int_tau_psi := tau_psi \<rparr>))"

definition computeSTS ::
  "intState \<Rightarrow> state \<Rightarrow> setpoint \<Rightarrow> sts_gains \<Rightarrow> real \<Rightarrow> input \<times> intState" where
  "computeSTS ist state target G dt = returned (computeSTS_locals ist state target G dt)"

text \<open>
  The predictive controller. Where a trajectory function is given, the reference at a
  future time is read from it, otherwise the current target is used
  (\<^verbatim>\<open>trajectoryFn ? trajectoryFn(t) : target\<close>). A trajectory function here returns a
  setpoint at every time.
\<close>

definition refAt :: "(real \<Rightarrow> setpoint) option \<Rightarrow> setpoint \<Rightarrow> real \<Rightarrow> setpoint" where
  "refAt trajectoryFn target t = (case trajectoryFn of None \<Rightarrow> target | Some f \<Rightarrow> f t)"

text \<open>
  The loop of \<^verbatim>\<open>solve1D\<close>, \<^verbatim>\<open>for (let k = 1; k <= N; k++)\<close>, with its two
  accumulators. \<open>N\<close>, \<open>time\<close> and \<open>dtPred\<close> are the variables of \<^verbatim>\<open>computeMPC\<close> that the
  nested function closes over.
\<close>

function solve1D_loop ::
  "nat \<Rightarrow> real \<Rightarrow> real \<Rightarrow> real \<Rightarrow> real \<Rightarrow> (real \<Rightarrow> real) \<Rightarrow> real \<Rightarrow> real \<Rightarrow>
   nat \<Rightarrow> real \<Rightarrow> real \<Rightarrow> real \<times> real" where
  "solve1D_loop N time dtPred pos vel refFn Q_p Q_v k totalAccel weightSum =
     (if k \<le> N then
        let tFuture = time + real k * dtPred;
            ref = refFn tFuture;
            predPos = pos + vel * (real k * dtPred);
            errPos = ref - predPos;
            w = 1.0 - 0.3 * (real k - 1) / real N
        in solve1D_loop N time dtPred pos vel refFn Q_p Q_v (k + 1)
             (totalAccel + w * (Q_p * errPos - Q_v * vel)) (weightSum + w)
      else (totalAccel, weightSum))"
  by pat_completeness auto
termination
  by (relation "measure (\<lambda>(N, time, dtPred, pos, vel, refFn, Q_p, Q_v, k, totalAccel, weightSum).
        N + 1 - k)") auto

declare solve1D_loop.simps [simp del]

text \<open>
  \<^verbatim>\<open>solve1D\<close> returns \<^verbatim>\<open>totalAccel / (weightSum * (1 + R))\<close> with no guard on the
  divisor.
\<close>

definition solve1D ::
  "nat \<Rightarrow> real \<Rightarrow> real \<Rightarrow> real \<Rightarrow> real \<Rightarrow> (real \<Rightarrow> real) \<Rightarrow> real \<Rightarrow> real \<Rightarrow> real \<Rightarrow> error + real" where
  "solve1D N time dtPred pos vel refFn Q_p Q_v R =
     (case solve1D_loop N time dtPred pos vel refFn Q_p Q_v 1 0 0 of (totalAccel, weightSum) \<Rightarrow>
        if weightSum * (1 + R) = 0 then Inl NotFinite
        else Inr (totalAccel / (weightSum * (1 + R))))"

text \<open>
  The loop that stores the predicted trajectory, \<^verbatim>\<open>for (let k = 0; k <= N; k++)\<close>; the
  list argument is \<^verbatim>\<open>intState.mpcPrediction\<close>, and \<^verbatim>\<open>push\<close> appends to it. The loop
  also evaluates the reference at each sample and does not use it.
\<close>

function mpcPrediction_loop ::
  "nat \<Rightarrow> real \<Rightarrow> real \<Rightarrow> state \<Rightarrow> (real \<Rightarrow> setpoint) option \<Rightarrow> setpoint \<Rightarrow>
   real \<Rightarrow> real \<Rightarrow> real \<Rightarrow> nat \<Rightarrow> prediction list \<Rightarrow> prediction list" where
  "mpcPrediction_loop N time dtPred state trajectoryFn target ax_des ay_des az_des k acc =
     (if k \<le> N then
        let tF = time + real k * dtPred;
            ref = refAt trajectoryFn target tF
        in mpcPrediction_loop N time dtPred state trajectoryFn target ax_des ay_des az_des (k + 1)
             (acc @ [\<lparr>
                pred_x = state_x state + state_vx state * (real k * dtPred)
                           + 0.5 * ax_des * (real k * dtPred)\<^sup>2,
                pred_y = state_y state + state_vy state * (real k * dtPred)
                           + 0.5 * ay_des * (real k * dtPred)\<^sup>2,
                pred_z = state_z state + state_vz state * (real k * dtPred)
                           + 0.5 * az_des * (real k * dtPred)\<^sup>2 \<rparr>])
      else acc)"
  by pat_completeness auto
termination
  by (relation "measure (\<lambda>(N, time, dtPred, state, trajectoryFn, target, ax_des, ay_des, az_des,
        k, acc). N + 1 - k)") auto

declare mpcPrediction_loop.simps [simp del]

definition computeMPC_locals ::
  "intState \<Rightarrow> state \<Rightarrow> setpoint \<Rightarrow> mpc_gains \<Rightarrow> real \<Rightarrow> (real \<Rightarrow> setpoint) option \<Rightarrow> real
   \<Rightarrow> error + locals \<times> intState" where
  "computeMPC_locals ist state target G dt trajectoryFn time =
     (let N = mpc_N G;
          dtPred = dt * 2
      in
      case solve1D N time dtPred (state_x state) (state_vx state)
             (\<lambda>t. target_x (refAt trajectoryFn target t)) (mpc_Q_pos G) (mpc_Q_vel G) (mpc_R G)
      of Inl e \<Rightarrow> Inl e | Inr ax_des \<Rightarrow>
      case solve1D N time dtPred (state_y state) (state_vy state)
             (\<lambda>t. target_y (refAt trajectoryFn target t)) (mpc_Q_pos G) (mpc_Q_vel G) (mpc_R G)
      of Inl e \<Rightarrow> Inl e | Inr ay_des \<Rightarrow>
      case solve1D N time dtPred (state_z state) (state_vz state)
             (\<lambda>t. target_z (refAt trajectoryFn target t)) (mpc_Q_pos G) (mpc_Q_vel G) (mpc_R G)
      of Inl e \<Rightarrow> Inl e | Inr az_des \<Rightarrow>
      let mpcPrediction = mpcPrediction_loop N time dtPred state trajectoryFn target
                            ax_des ay_des az_des 0 []
      in case thrustAttitude state ax_des ay_des az_des of (T, phi_des, theta_des) \<Rightarrow>
      let tau_phi = mpc_Kp_att G * (phi_des - state_phi state) - mpc_Kd_att G * state_p state;
          tau_theta = mpc_Kp_att G * (theta_des - state_theta state) - mpc_Kd_att G * state_q state;
          tau_psi = mpc_Kp_att G * (0 - state_psi state) - mpc_Kd_att G * state_r state
      in Inr (\<lparr> l_ax_des = ax_des, l_ay_des = ay_des, l_az_des = az_des, l_T = T,
                 l_phi_des = phi_des, l_theta_des = theta_des,
                 l_tau_phi = tau_phi, l_tau_theta = tau_theta, l_tau_psi = tau_psi \<rparr>,
              ist\<lparr> int_mpcPrediction := Some mpcPrediction,
                   int_s_x := target_x target - state_x state,
                   int_s_y := target_y target - state_y state,
                   int_s_z := target_z target - state_z state,
                   int_T := T, int_tau_phi := tau_phi,
                   int_tau_theta := tau_theta, int_tau_psi := tau_psi \<rparr>))"

definition computeMPC ::
  "intState \<Rightarrow> state \<Rightarrow> setpoint \<Rightarrow> mpc_gains \<Rightarrow> real \<Rightarrow> (real \<Rightarrow> setpoint) option \<Rightarrow> real
   \<Rightarrow> error + input \<times> intState" where
  "computeMPC ist state target G dt trajectoryFn time =
     (case computeMPC_locals ist state target G dt trajectoryFn time of
        Inl e \<Rightarrow> Inl e | Inr r \<Rightarrow> Inr (returned r))"

text \<open>
  The dispatch. The \<^verbatim>\<open>switch\<close> has no default: for any other id the function
  returns \<^verbatim>\<open>undefined\<close>, here \<open>None\<close>, and touches nothing. A gain object of another
  algorithm lacks the keys the controller reads, so every product with them is
  \<^verbatim>\<open>NaN\<close>.
\<close>

definition compute ::
  "string \<Rightarrow> intState \<Rightarrow> state \<Rightarrow> setpoint \<Rightarrow> gains \<Rightarrow> real \<Rightarrow> (real \<Rightarrow> setpoint) option \<Rightarrow> real
   \<Rightarrow> error + input option \<times> intState" where
  "compute algo ist state target gains dt trajectoryFn time =
     (if algo = ''PID'' then
        (case gains of
           PIDGains G \<Rightarrow> (case computePID ist state target G dt of (u, ist') \<Rightarrow> Inr (Some u, ist'))
         | _ \<Rightarrow> Inl NotFinite)
      else if algo = ''SMC'' then
        (case gains of
           SMCGains G \<Rightarrow> (case computeSMC ist state target G dt of (u, ist') \<Rightarrow> Inr (Some u, ist'))
         | _ \<Rightarrow> Inl NotFinite)
      else if algo = ''STS'' then
        (case gains of
           STSGains G \<Rightarrow> (case computeSTS ist state target G dt of (u, ist') \<Rightarrow> Inr (Some u, ist'))
         | _ \<Rightarrow> Inl NotFinite)
      else if algo = ''MPC'' then
        (case gains of
           MPCGains G \<Rightarrow>
             (case computeMPC ist state target G dt trajectoryFn time of
                Inl e \<Rightarrow> Inl e | Inr (u, ist') \<Rightarrow> Inr (Some u, ist'))
         | _ \<Rightarrow> Inl NotFinite)
      else Inr (None, ist))"

section \<open>trajectories.js: the pattern table and \<^verbatim>\<open>evaluate\<close>\<close>

record hover_params =
  hover_x :: real
  hover_y :: real
  hover_z :: real

record circle_params =
  circle_radius :: real
  circle_altitude :: real
  circle_speed :: real

record helix_params =
  helix_radius :: real
  helix_climbRate :: real
  helix_speed :: real

record figure8_params =
  figure8_scaleX :: real
  figure8_scaleZ :: real
  figure8_altitude :: real
  figure8_speed :: real

record square_params =
  square_size :: real
  square_altitude :: real
  square_holdTime :: real

record step_params =
  step_startAlt :: real
  step_endAlt :: real
  step_stepTime :: real

text \<open>
  The table \<^verbatim>\<open>patterns\<close>: six entries, each with its parameters (the names and
  descriptions are for the page only). \<^verbatim>\<open>setPatternParam\<close> can change a parameter, so
  the functions below take the table as an argument.
\<close>

record patternTable =
  pat_HOVER :: hover_params
  pat_CIRCLE :: circle_params
  pat_HELIX :: helix_params
  pat_FIGURE8 :: figure8_params
  pat_SQUARE :: square_params
  pat_STEP :: step_params

definition patterns :: patternTable where
  "patterns = \<lparr>
     pat_HOVER = \<lparr> hover_x = 0, hover_y = 3, hover_z = 0 \<rparr>,
     pat_CIRCLE = \<lparr> circle_radius = 4, circle_altitude = 3, circle_speed = 0.5 \<rparr>,
     pat_HELIX = \<lparr> helix_radius = 3, helix_climbRate = 0.3, helix_speed = 0.4 \<rparr>,
     pat_FIGURE8 = \<lparr> figure8_scaleX = 5, figure8_scaleZ = 3, figure8_altitude = 3.5,
                     figure8_speed = 0.4 \<rparr>,
     pat_SQUARE = \<lparr> square_size = 4, square_altitude = 3, square_holdTime = 3 \<rparr>,
     pat_STEP = \<lparr> step_startAlt = 1, step_endAlt = 4, step_stepTime = 3 \<rparr> \<rparr>"

definition mkSetpoint :: "real \<Rightarrow> real \<Rightarrow> real \<Rightarrow> real \<Rightarrow> real \<Rightarrow> real \<Rightarrow> real \<Rightarrow> setpoint" where
  "mkSetpoint x y z vx vy vz yaw =
     \<lparr> target_x = x, target_y = y, target_z = z,
       target_vx = Some vx, target_vy = Some vy, target_vz = Some vz, target_yaw = Some yaw \<rparr>"

definition fn_HOVER :: "real \<Rightarrow> hover_params \<Rightarrow> setpoint" where
  "fn_HOVER t p = mkSetpoint (hover_x p) (hover_y p) (hover_z p) 0 0 0 0"

definition fn_CIRCLE :: "real \<Rightarrow> circle_params \<Rightarrow> setpoint" where
  "fn_CIRCLE t p =
     (let w = circle_speed p
      in mkSetpoint (circle_radius p * cos (w * t)) (circle_altitude p)
           (circle_radius p * sin (w * t))
           (- circle_radius p * w * sin (w * t)) 0 (circle_radius p * w * cos (w * t)) 0)"

definition fn_HELIX :: "real \<Rightarrow> helix_params \<Rightarrow> setpoint" where
  "fn_HELIX t p =
     (let w = helix_speed p
      in mkSetpoint (helix_radius p * cos (w * t)) (1 + helix_climbRate p * t)
           (helix_radius p * sin (w * t))
           (- helix_radius p * w * sin (w * t)) (helix_climbRate p)
           (helix_radius p * w * cos (w * t)) 0)"

definition fn_FIGURE8 :: "real \<Rightarrow> figure8_params \<Rightarrow> setpoint" where
  "fn_FIGURE8 t p =
     (let w = figure8_speed p
      in mkSetpoint (figure8_scaleX p * cos (w * t))
           (figure8_altitude p + 0.5 * sin (w * t * 0.5))
           (figure8_scaleZ p * sin (2 * w * t) / 2)
           (- figure8_scaleX p * w * sin (w * t))
           (0.5 * 0.5 * w * cos (w * t * 0.5))
           (figure8_scaleZ p * w * cos (2 * w * t)) 0)"

text \<open>
  JavaScript's \<^verbatim>\<open>%\<close>: the remainder has the sign of the dividend. On numbers it is
  \<^verbatim>\<open>NaN\<close> for a zero divisor, which the callers below check first.
\<close>

definition jsTrunc :: "real \<Rightarrow> int" where
  "jsTrunc r = (if 0 \<le> r then \<lfloor>r\<rfloor> else \<lceil>r\<rceil>)"

definition jsRem :: "real \<Rightarrow> real \<Rightarrow> real" where
  "jsRem a b = a - b * of_int (jsTrunc (a / b))"

definition jsRemInt :: "int \<Rightarrow> int \<Rightarrow> int" where
  "jsRemInt a n = (if 0 \<le> a then a mod n else - ((- a) mod n))"

text \<open>\<^verbatim>\<open>xs[i]\<close> for an integer \<open>i\<close>: \<^verbatim>\<open>undefined\<close> outside the array.\<close>

definition jsIndex :: "'a list \<Rightarrow> int \<Rightarrow> 'a option" where
  "jsIndex xs i = (if 0 \<le> i \<and> i < int (length xs) then Some (xs ! nat i) else None)"

text \<open>
  The square: with a zero hold time the phase is \<^verbatim>\<open>NaN\<close>, no corner is found and
  reading \<^verbatim>\<open>curr[0]\<close> raises; a negative segment index finds no corner either.
\<close>

definition fn_SQUARE :: "real \<Rightarrow> square_params \<Rightarrow> error + setpoint" where
  "fn_SQUARE t p =
     (let corners = [(square_size p, square_altitude p, square_size p),
                     (- square_size p, square_altitude p, square_size p),
                     (- square_size p, square_altitude p, - square_size p),
                     (square_size p, square_altitude p, - square_size p)];
          totalPeriod = real (length corners) * square_holdTime p
      in if totalPeriod = 0 then Inl TypeError
         else
           let phase = jsRem t totalPeriod;
               segIdx = \<lfloor>phase / square_holdTime p\<rfloor>;
               segFrac = jsRem phase (square_holdTime p) / square_holdTime p
           in case (jsIndex corners (jsRemInt segIdx (int (length corners))),
                    jsIndex corners (jsRemInt (segIdx + 1) (int (length corners)))) of
                (Some (c0, c1, c2), Some (n0, n1, n2)) \<Rightarrow>
                  let s = segFrac * segFrac * (3 - 2 * segFrac)
                  in Inr (mkSetpoint (c0 + (n0 - c0) * s) (c1 + (n1 - c1) * s)
                            (c2 + (n2 - c2) * s) 0 0 0 0)
              | _ \<Rightarrow> Inl TypeError)"

definition fn_STEP :: "real \<Rightarrow> step_params \<Rightarrow> setpoint" where
  "fn_STEP t p =
     (let y = (if t < step_stepTime p then step_startAlt p else step_endAlt p)
      in mkSetpoint 0 y 0 0 0 0 0)"

text \<open>
  \<^verbatim>\<open>patterns[patternKey]\<close> also finds what every object inherits from
  \<^verbatim>\<open>Object.prototype\<close>. Such a value is truthy and has no \<^verbatim>\<open>fn\<close>, so calling
  \<^verbatim>\<open>pat.fn\<close> raises.
\<close>

definition objectPrototypeKeys :: "string list" where
  "objectPrototypeKeys =
     [''constructor'', ''hasOwnProperty'', ''isPrototypeOf'', ''propertyIsEnumerable'',
      ''toLocaleString'', ''toString'', ''valueOf'', ''__proto__'',
      ''__defineGetter__'', ''__defineSetter__'', ''__lookupGetter__'', ''__lookupSetter__'']"

definition patternKeys :: "string list" where
  "patternKeys = [''HOVER'', ''CIRCLE'', ''HELIX'', ''FIGURE8'', ''SQUARE'', ''STEP'']"

definition evaluate :: "patternTable \<Rightarrow> string \<Rightarrow> real \<Rightarrow> error + setpoint" where
  "evaluate pats patternKey t =
     (if patternKey = ''HOVER'' then Inr (fn_HOVER t (pat_HOVER pats))
      else if patternKey = ''CIRCLE'' then Inr (fn_CIRCLE t (pat_CIRCLE pats))
      else if patternKey = ''HELIX'' then Inr (fn_HELIX t (pat_HELIX pats))
      else if patternKey = ''FIGURE8'' then Inr (fn_FIGURE8 t (pat_FIGURE8 pats))
      else if patternKey = ''SQUARE'' then fn_SQUARE t (pat_SQUARE pats)
      else if patternKey = ''STEP'' then Inr (fn_STEP t (pat_STEP pats))
      else if patternKey \<in> set objectPrototypeKeys then Inl TypeError
      else Inr (mkSetpoint 0 3 0 0 0 0 0))"

section \<open>trajectories.js: the custom waypoint walker\<close>

text \<open>
  The module variables \<^verbatim>\<open>customWaypoints\<close>, \<^verbatim>\<open>customIdx\<close> and \<^verbatim>\<open>customT\<close>; a
  waypoint is an array of three numbers. \<^verbatim>\<open>customSpeed\<close> is never assigned again.
\<close>

record walker =
  customWaypoints :: "(real \<times> real \<times> real) list"
  customIdx :: nat
  customT :: real


definition setCustomWaypoints :: "(real \<times> real \<times> real) list \<Rightarrow> walker" where
  "setCustomWaypoints wps = \<lparr> customWaypoints = wps, customIdx = 0, customT = 0 \<rparr>"


section \<open>Notions used to state the properties\<close>

text \<open>
  The predictive controller's formula in the words of the specification: weights
  \<open>w\<^sub>k = 1 - 0.3 (k - 1) / N\<close>, errors \<open>e\<^sub>k = ref (t + k dt_pred) - (pos + vel k dt_pred)\<close>
  with \<open>dt_pred = 2 dt\<close>, and the weighted sum over \<open>k = 1..N\<close> divided by the sum of
  the weights times \<open>1 + R\<close>.
\<close>

definition mpcWeight :: "nat \<Rightarrow> nat \<Rightarrow> real" where
  "mpcWeight N k = 1 - 0.3 * (real k - 1) / real N"

definition mpcFormula ::
  "nat \<Rightarrow> real \<Rightarrow> real \<Rightarrow> real \<Rightarrow> real \<Rightarrow> (real \<Rightarrow> real) \<Rightarrow> real \<Rightarrow> real \<Rightarrow> real \<Rightarrow> real" where
  "mpcFormula N dt t_now pos vel ref Q_pos Q_vel R =
     (let dt_pred = 2 * dt;
          e = (\<lambda>k. ref (t_now + real k * dt_pred) - (pos + vel * real k * dt_pred))
      in (\<Sum>k = 1..N. mpcWeight N k * (Q_pos * e k - Q_vel * vel))
           / ((\<Sum>k = 1..N. mpcWeight N k) * (1 + R)))"

text \<open>
  The outer loop of the PID controller as the claim words it: the altitude channel with
  the \<open>xy\<close> gains, the horizontal channels with the \<open>z\<close> gains. Used only to compare
  with the source.
\<close>

definition pidAccelClaimed ::
  "intState \<Rightarrow> state \<Rightarrow> setpoint \<Rightarrow> pid_gains \<Rightarrow> real \<Rightarrow> real \<times> real \<times> real" where
  "pidAccelClaimed ist state target G dt =
     (let ex = target_x target - state_x state;
          ey = target_y target - state_y state;
          ez = target_z target - state_z state;
          evx = orZero (target_vx target) - state_vx state;
          evy = orZero (target_vy target) - state_vy state;
          evz = orZero (target_vz target) - state_vz state;
          iEx = clamp (int_iEx ist + ex * dt) (- pid_iMax G) (pid_iMax G);
          iEy = clamp (int_iEy ist + ey * dt) (- pid_iMax G) (pid_iMax G);
          iEz = clamp (int_iEz ist + ez * dt) (- pid_iMax G) (pid_iMax G)
      in (pid_Kp_z G * ex + pid_Ki_z G * iEx + pid_Kd_z G * evx,
          pid_Kp_xy G * ey + pid_Ki_xy G * iEy + pid_Kd_xy G * evy,
          pid_Kp_z G * ez + pid_Ki_z G * iEz + pid_Kd_z G * evz))"

text \<open>
  The specification's reading of an unknown pattern id: it is rejected and the previous
  valid pattern stays in force. Used only to compare with the source.
\<close>

definition evaluate_persisting :: "patternTable \<Rightarrow> string \<Rightarrow> string \<Rightarrow> real \<Rightarrow> error + setpoint" where
  "evaluate_persisting pats previous patternKey t =
     (if patternKey \<in> set patternKeys then evaluate pats patternKey t
      else evaluate pats previous t)"


section \<open>The program over JavaScript's own numbers\<close>

text \<open>
  The definitions above read numbers as reals. That reading cannot say what the program
  does once a value is \<^verbatim>\<open>NaN\<close> or infinite, or where a result is rounded. The definitions
  of this part are the same source functions written over an arbitrary number type with
  its operations passed in: \<open>'n arith\<close> holds the operators of the language (\<open>jnum r\<close> is
  the number a decimal literal \<open>r\<close>, or a small integer counter, denotes), \<open>'n mathlib\<close> the
  functions of \<^verbatim>\<open>Math\<close> and the operator \<^verbatim>\<open>** 2\<close>. Every operation appears where and in
  the order in which the source performs it, so the doubles of JavaScript are one instance
  and nothing is assumed about rounding or overflow.
\<close>

record 'n arith =
  jnum :: "real \<Rightarrow> 'n"
  jadd :: "'n \<Rightarrow> 'n \<Rightarrow> 'n"
  jsub :: "'n \<Rightarrow> 'n \<Rightarrow> 'n"
  jmul :: "'n \<Rightarrow> 'n \<Rightarrow> 'n"
  jdiv :: "'n \<Rightarrow> 'n \<Rightarrow> 'n"
  jneg :: "'n \<Rightarrow> 'n"
  jlt :: "'n \<Rightarrow> 'n \<Rightarrow> bool"
  jle :: "'n \<Rightarrow> 'n \<Rightarrow> bool"
  jeq :: "'n \<Rightarrow> 'n \<Rightarrow> bool"
  jnan :: "'n \<Rightarrow> bool"
  jfinite :: "'n \<Rightarrow> bool"

record 'n mathlib =
  jmax :: "'n \<Rightarrow> 'n \<Rightarrow> 'n"
  jmin :: "'n \<Rightarrow> 'n \<Rightarrow> 'n"
  jsqrt :: "'n \<Rightarrow> 'n"
  jabs :: "'n \<Rightarrow> 'n"
  jcos :: "'n \<Rightarrow> 'n"
  jsin :: "'n \<Rightarrow> 'n"
  jasin :: "'n \<Rightarrow> 'n"
  jatan2 :: "'n \<Rightarrow> 'n \<Rightarrow> 'n"
  jsquare :: "'n \<Rightarrow> 'n"

text \<open>\<^verbatim>\<open>x || 0\<close>: zero for a missing value, for \<^verbatim>\<open>NaN\<close> and for zero.\<close>

definition js_orZero :: "'n arith \<Rightarrow> 'n option \<Rightarrow> 'n" where
  "js_orZero A v =
     (case v of None \<Rightarrow> jnum A 0
      | Some x \<Rightarrow> if jnan A x \<or> jeq A x (jnum A 0) then jnum A 0 else x)"

definition js_clamp :: "'n mathlib \<Rightarrow> 'n \<Rightarrow> 'n \<Rightarrow> 'n \<Rightarrow> 'n" where
  "js_clamp M v lo hi = jmax M lo (jmin M hi v)"

subsection \<open>physics.js\<close>

record 'n jpose =
  js_x :: 'n
  js_y :: 'n
  js_z :: 'n
  js_vx :: 'n
  js_vy :: 'n
  js_vz :: 'n
  js_phi :: 'n
  js_theta :: 'n
  js_psi :: 'n
  js_p :: 'n
  js_q :: 'n
  js_r :: 'n

record 'n jstate = "'n jpose" +
  js_motors :: "'n list"

definition js_createState :: "'n arith \<Rightarrow> 'n jstate" where
  "js_createState A = \<lparr> js_x = jnum A 0, js_y = jnum A 0, js_z = jnum A 0,
     js_vx = jnum A 0, js_vy = jnum A 0, js_vz = jnum A 0,
     js_phi = jnum A 0, js_theta = jnum A 0, js_psi = jnum A 0,
     js_p = jnum A 0, js_q = jnum A 0, js_r = jnum A 0,
     js_motors = [jnum A 0, jnum A 0, jnum A 0, jnum A 0] \<rparr>"

record 'n jenv =
  js_windX :: "'n option"
  js_windY :: "'n option"
  js_windZ :: "'n option"

definition js_noWind :: "'n jenv" where
  "js_noWind = \<lparr> js_windX = None, js_windY = None, js_windZ = None \<rparr>"

record 'n jderiv =
  jk_dx :: 'n
  jk_dy :: 'n
  jk_dz :: 'n
  jk_dvx :: 'n
  jk_dvy :: 'n
  jk_dvz :: 'n
  jk_dphi :: 'n
  jk_dtheta :: 'n
  jk_dpsi :: 'n
  jk_dp :: 'n
  jk_dq :: 'n
  jk_dr :: 'n

definition js_allocateMotors ::
  "'n arith \<Rightarrow> 'n mathlib \<Rightarrow> 'n \<Rightarrow> 'n \<Rightarrow> 'n \<Rightarrow> 'n \<Rightarrow> 'n list" where
  "js_allocateMotors A M T tauPhi tauTheta tauPsi =
     (let kT = jnum A (p_kT PARAMS); kD = jnum A (p_kD PARAMS); L = jnum A (p_L PARAMS);
          s2 = jnum A (sqrt 2);
          a = jdiv A T (jmul A (jnum A 4) kT);
          b = jdiv A (jmul A tauPhi s2) (jmul A (jmul A (jnum A 4) kT) L);
          c = jdiv A (jmul A tauTheta s2) (jmul A (jmul A (jnum A 4) kT) L);
          d = jdiv A tauPsi (jmul A (jnum A 4) kD);
          w1sq = jsub A (jsub A (jsub A a b) c) d;
          w2sq = jadd A (jadd A (jsub A a b) c) d;
          w3sq = jsub A (jadd A (jadd A a b) c) d;
          w4sq = jadd A (jsub A (jadd A a b) c) d;
          wMaxSq = jmul A (jnum A (p_wMax PARAMS)) (jnum A (p_wMax PARAMS))
      in [jsqrt M (js_clamp M w1sq (jnum A 0) wMaxSq),
          jsqrt M (js_clamp M w2sq (jnum A 0) wMaxSq),
          jsqrt M (js_clamp M w3sq (jnum A 0) wMaxSq),
          jsqrt M (js_clamp M w4sq (jnum A 0) wMaxSq)])"

definition js_derivatives ::
  "'n arith \<Rightarrow> 'n mathlib \<Rightarrow> ('n, 'a) jpose_scheme \<Rightarrow> 'n \<times> 'n \<times> 'n \<times> 'n \<Rightarrow> 'n jenv \<Rightarrow> 'n jderiv" where
  "js_derivatives A M s u env =
     (case u of (T, tphi, ttheta, tpsi) \<Rightarrow>
      let m = jnum A (p_m PARAMS); g = jnum A (p_g PARAMS); Ixx = jnum A (p_Ixx PARAMS);
          Iyy = jnum A (p_Iyy PARAMS); Izz = jnum A (p_Izz PARAMS); Cd = jnum A (p_Cd PARAMS);
          cphi = jcos M (js_phi s); sphi = jsin M (js_phi s);
          cth = jcos M (js_theta s); sth = jsin M (js_theta s);
          cpsi = jcos M (js_psi s); spsi = jsin M (js_psi s);
          Tx = jmul A T (jadd A (jmul A (jmul A cpsi sth) cphi) (jmul A spsi sphi));
          Ty = jmul A T (jmul A cth cphi);
          Tz = jmul A T (jsub A (jmul A (jmul A spsi sth) cphi) (jmul A cpsi sphi));
          dvx = jadd A (jsub A (jdiv A Tx m) (jmul A Cd (js_vx s))) (js_orZero A (js_windX env));
          dvy = jadd A (jsub A (jsub A (jdiv A Ty m) g) (jmul A Cd (js_vy s)))
                  (js_orZero A (js_windY env));
          dvz = jadd A (jsub A (jdiv A Tz m) (jmul A Cd (js_vz s))) (js_orZero A (js_windZ env));
          dphi = jadd A (jadd A (js_p s) (jmul A (jdiv A (jmul A sphi sth) cth) (js_q s)))
                   (jmul A (jdiv A (jmul A cphi sth) cth) (js_r s));
          dtheta = jsub A (jmul A cphi (js_q s)) (jmul A sphi (js_r s));
          dpsi = jadd A (jmul A (jdiv A sphi cth) (js_q s)) (jmul A (jdiv A cphi cth) (js_r s));
          dp = jdiv A (jsub A tphi (jmul A (jmul A (jsub A Izz Iyy) (js_q s)) (js_r s))) Ixx;
          dq = jdiv A (jsub A ttheta (jmul A (jmul A (jsub A Ixx Izz) (js_p s)) (js_r s))) Iyy;
          dr = jdiv A (jsub A tpsi (jmul A (jmul A (jsub A Iyy Ixx) (js_p s)) (js_q s))) Izz
      in \<lparr> jk_dx = js_vx s, jk_dy = js_vy s, jk_dz = js_vz s,
           jk_dvx = dvx, jk_dvy = dvy, jk_dvz = dvz,
           jk_dphi = dphi, jk_dtheta = dtheta, jk_dpsi = dpsi,
           jk_dp = dp, jk_dq = dq, jk_dr = dr \<rparr>)"

definition js_addScaled :: "'n arith \<Rightarrow> ('n, 'a) jpose_scheme \<Rightarrow> 'n jderiv \<Rightarrow> 'n \<Rightarrow> 'n jpose" where
  "js_addScaled A s k h =
     \<lparr> js_x = jadd A (js_x s) (jmul A (jk_dx k) h),
       js_y = jadd A (js_y s) (jmul A (jk_dy k) h),
       js_z = jadd A (js_z s) (jmul A (jk_dz k) h),
       js_vx = jadd A (js_vx s) (jmul A (jk_dvx k) h),
       js_vy = jadd A (js_vy s) (jmul A (jk_dvy k) h),
       js_vz = jadd A (js_vz s) (jmul A (jk_dvz k) h),
       js_phi = jadd A (js_phi s) (jmul A (jk_dphi k) h),
       js_theta = jadd A (js_theta s) (jmul A (jk_dtheta k) h),
       js_psi = jadd A (js_psi s) (jmul A (jk_dpsi k) h),
       js_p = jadd A (js_p s) (jmul A (jk_dp k) h),
       js_q = jadd A (js_q s) (jmul A (jk_dq k) h),
       js_r = jadd A (js_r s) (jmul A (jk_dr k) h) \<rparr>"

text \<open>
  One line of the block \<^verbatim>\<open>// Combine\<close>:
  \<^verbatim>\<open>s.x += dt / 6 * (k1.dx + 2*k2.dx + 2*k3.dx + k4.dx)\<close>.
\<close>

definition js_combine :: "'n arith \<Rightarrow> 'n \<Rightarrow> 'n \<Rightarrow> 'n \<Rightarrow> 'n \<Rightarrow> 'n \<Rightarrow> 'n \<Rightarrow> 'n" where
  "js_combine A dt x d1 d2 d3 d4 =
     jadd A x (jmul A (jdiv A dt (jnum A 6))
       (jadd A (jadd A (jadd A d1 (jmul A (jnum A 2) d2)) (jmul A (jnum A 2) d3)) d4))"

definition js_rk4 ::
  "'n arith \<Rightarrow> 'n mathlib \<Rightarrow> 'n jstate \<Rightarrow> 'n \<times> 'n \<times> 'n \<times> 'n \<Rightarrow> 'n jenv \<Rightarrow> 'n \<Rightarrow> 'n jstate" where
  "js_rk4 A M s u env dt =
     (let k1 = js_derivatives A M s u env;
          s2 = js_addScaled A s k1 (jdiv A dt (jnum A 2));
          k2 = js_derivatives A M s2 u env;
          s3 = js_addScaled A s k2 (jdiv A dt (jnum A 2));
          k3 = js_derivatives A M s3 u env;
          s4 = js_addScaled A s k3 dt;
          k4 = js_derivatives A M s4 u env
      in s\<lparr>
        js_x := js_combine A dt (js_x s) (jk_dx k1) (jk_dx k2) (jk_dx k3) (jk_dx k4),
        js_y := js_combine A dt (js_y s) (jk_dy k1) (jk_dy k2) (jk_dy k3) (jk_dy k4),
        js_z := js_combine A dt (js_z s) (jk_dz k1) (jk_dz k2) (jk_dz k3) (jk_dz k4),
        js_vx := js_combine A dt (js_vx s) (jk_dvx k1) (jk_dvx k2) (jk_dvx k3) (jk_dvx k4),
        js_vy := js_combine A dt (js_vy s) (jk_dvy k1) (jk_dvy k2) (jk_dvy k3) (jk_dvy k4),
        js_vz := js_combine A dt (js_vz s) (jk_dvz k1) (jk_dvz k2) (jk_dvz k3) (jk_dvz k4),
        js_phi := js_combine A dt (js_phi s) (jk_dphi k1) (jk_dphi k2) (jk_dphi k3) (jk_dphi k4),
        js_theta := js_combine A dt (js_theta s)
                      (jk_dtheta k1) (jk_dtheta k2) (jk_dtheta k3) (jk_dtheta k4),
        js_psi := js_combine A dt (js_psi s) (jk_dpsi k1) (jk_dpsi k2) (jk_dpsi k3) (jk_dpsi k4),
        js_p := js_combine A dt (js_p s) (jk_dp k1) (jk_dp k2) (jk_dp k3) (jk_dp k4),
        js_q := js_combine A dt (js_q s) (jk_dq k1) (jk_dq k2) (jk_dq k3) (jk_dq k4),
        js_r := js_combine A dt (js_r s) (jk_dr k1) (jk_dr k2) (jk_dr k3) (jk_dr k4) \<rparr>)"

text \<open>\<^verbatim>\<open>if (s.y < 0) { s.y = 0; s.vy = Math.max(0, s.vy); }\<close>\<close>

definition js_groundContact :: "'n arith \<Rightarrow> 'n mathlib \<Rightarrow> 'n jstate \<Rightarrow> 'n jstate" where
  "js_groundContact A M s =
     (if jlt A (js_y s) (jnum A 0)
      then s\<lparr> js_y := jnum A 0, js_vy := jmax M (jnum A 0) (js_vy s) \<rparr>
      else s)"

definition js_step ::
  "'n arith \<Rightarrow> 'n mathlib \<Rightarrow> 'n jstate \<Rightarrow> 'n \<times> 'n \<times> 'n \<times> 'n \<Rightarrow> 'n jenv \<Rightarrow> 'n \<Rightarrow> 'n jstate" where
  "js_step A M s u env dt =
     (js_groundContact A M (js_rk4 A M s u env dt))\<lparr> js_motors :=
        (case u of (T, tauPhi, tauTheta, tauPsi) \<Rightarrow>
           js_allocateMotors A M T tauPhi tauTheta tauPsi) \<rparr>"


subsection \<open>controllers.js\<close>

record 'n jsetpoint =
  jt_x :: 'n
  jt_y :: 'n
  jt_z :: 'n
  jt_vx :: "'n option"
  jt_vy :: "'n option"
  jt_vz :: "'n option"
  jt_yaw :: "'n option"

record 'n jpid_gains =
  jpid_Kp_xy :: 'n
  jpid_Ki_xy :: 'n
  jpid_Kd_xy :: 'n
  jpid_Kp_z :: 'n
  jpid_Ki_z :: 'n
  jpid_Kd_z :: 'n
  jpid_Kp_att :: 'n
  jpid_Kd_att :: 'n
  jpid_Kp_yaw :: 'n
  jpid_Kd_yaw :: 'n
  jpid_iMax :: 'n

record 'n jmpc_gains =
  jmpc_N :: nat
  jmpc_Q_pos :: 'n
  jmpc_Q_vel :: 'n
  jmpc_R :: 'n
  jmpc_Kp_att :: 'n
  jmpc_Kd_att :: 'n

record 'n jprediction =
  jpred_x :: 'n
  jpred_y :: 'n
  jpred_z :: 'n

record 'n jintState =
  jint_iEx :: 'n
  jint_iEy :: 'n
  jint_iEz :: 'n
  jint_v_x :: 'n
  jint_v_y :: 'n
  jint_v_z :: 'n
  jint_v_phi :: 'n
  jint_v_theta :: 'n
  jint_v_psi :: 'n
  jint_s_x :: 'n
  jint_s_y :: 'n
  jint_s_z :: 'n
  jint_s_phi :: 'n
  jint_s_theta :: 'n
  jint_T :: 'n
  jint_tau_phi :: 'n
  jint_tau_theta :: 'n
  jint_tau_psi :: 'n
  jint_mpcPrediction :: "'n jprediction list option"

definition js_mkSetpoint :: "'n \<Rightarrow> 'n \<Rightarrow> 'n \<Rightarrow> 'n \<Rightarrow> 'n \<Rightarrow> 'n \<Rightarrow> 'n \<Rightarrow> 'n jsetpoint" where
  "js_mkSetpoint x y z vx vy vz yaw =
     \<lparr> jt_x = x, jt_y = y, jt_z = z,
       jt_vx = Some vx, jt_vy = Some vy, jt_vz = Some vz, jt_yaw = Some yaw \<rparr>"

text \<open>The default gains are the literals of \<^verbatim>\<open>defaultGains\<close>, read in the arithmetic.\<close>

definition js_defaultGains_PID :: "'n arith \<Rightarrow> 'n jpid_gains" where
  "js_defaultGains_PID A =
     \<lparr> jpid_Kp_xy = jnum A (pid_Kp_xy defaultGains_PID),
       jpid_Ki_xy = jnum A (pid_Ki_xy defaultGains_PID),
       jpid_Kd_xy = jnum A (pid_Kd_xy defaultGains_PID),
       jpid_Kp_z = jnum A (pid_Kp_z defaultGains_PID),
       jpid_Ki_z = jnum A (pid_Ki_z defaultGains_PID),
       jpid_Kd_z = jnum A (pid_Kd_z defaultGains_PID),
       jpid_Kp_att = jnum A (pid_Kp_att defaultGains_PID),
       jpid_Kd_att = jnum A (pid_Kd_att defaultGains_PID),
       jpid_Kp_yaw = jnum A (pid_Kp_yaw defaultGains_PID),
       jpid_Kd_yaw = jnum A (pid_Kd_yaw defaultGains_PID),
       jpid_iMax = jnum A (pid_iMax defaultGains_PID) \<rparr>"

definition js_defaultGains_MPC :: "'n arith \<Rightarrow> 'n jmpc_gains" where
  "js_defaultGains_MPC A =
     \<lparr> jmpc_N = mpc_N defaultGains_MPC,
       jmpc_Q_pos = jnum A (mpc_Q_pos defaultGains_MPC),
       jmpc_Q_vel = jnum A (mpc_Q_vel defaultGains_MPC),
       jmpc_R = jnum A (mpc_R defaultGains_MPC),
       jmpc_Kp_att = jnum A (mpc_Kp_att defaultGains_MPC),
       jmpc_Kd_att = jnum A (mpc_Kd_att defaultGains_MPC) \<rparr>"

definition js_resetInternal :: "'n arith \<Rightarrow> 'n jintState" where
  "js_resetInternal A = \<lparr> jint_iEx = jnum A 0, jint_iEy = jnum A 0, jint_iEz = jnum A 0,
     jint_v_x = jnum A 0, jint_v_y = jnum A 0, jint_v_z = jnum A 0,
     jint_v_phi = jnum A 0, jint_v_theta = jnum A 0, jint_v_psi = jnum A 0,
     jint_s_x = jnum A 0, jint_s_y = jnum A 0, jint_s_z = jnum A 0,
     jint_s_phi = jnum A 0, jint_s_theta = jnum A 0,
     jint_T = jnum A 0, jint_tau_phi = jnum A 0, jint_tau_theta = jnum A 0,
     jint_tau_psi = jnum A 0, jint_mpcPrediction = None \<rparr>"

record 'n jlocals =
  jl_ax_des :: 'n
  jl_ay_des :: 'n
  jl_az_des :: 'n
  jl_T :: 'n
  jl_phi_des :: 'n
  jl_theta_des :: 'n
  jl_tau_phi :: 'n
  jl_tau_theta :: 'n
  jl_tau_psi :: 'n

definition js_thrustAttitude ::
  "'n arith \<Rightarrow> 'n mathlib \<Rightarrow> 'n jstate \<Rightarrow> 'n \<Rightarrow> 'n \<Rightarrow> 'n \<Rightarrow> 'n \<times> 'n \<times> 'n" where
  "js_thrustAttitude A M state ax_des ay_des az_des =
     (let m = jnum A (p_m PARAMS); g = jnum A (p_g PARAMS);
          cphi = jcos M (js_phi state); cth = jcos M (js_theta state);
          T = js_clamp M (jdiv A (jmul A m (jadd A g ay_des)) (jmax M (jmul A cphi cth) (jnum A 0.1)))
                (jnum A 0) (jmul A (jmul A m g) (jnum A 4));
          psi = js_psi state;
          cpsi = jcos M psi; spsi = jsin M psi;
          phi_des = js_clamp M (jasin M (js_clamp M
                        (jdiv A (jmul A m (jsub A (jmul A ax_des spsi) (jmul A az_des cpsi)))
                                (jmax M T (jnum A 0.1)))
                        (jneg A (jnum A 0.8)) (jnum A 0.8)))
                      (jneg A (jnum A 0.6)) (jnum A 0.6);
          theta_des = js_clamp M (jatan2 M (jadd A (jmul A ax_des cpsi) (jmul A az_des spsi))
                                           (jadd A g ay_des))
                        (jneg A (jnum A 0.6)) (jnum A 0.6)
      in (T, phi_des, theta_des))"

definition js_computePID_locals ::
  "'n arith \<Rightarrow> 'n mathlib \<Rightarrow> 'n jintState \<Rightarrow> 'n jstate \<Rightarrow> 'n jsetpoint \<Rightarrow> 'n jpid_gains \<Rightarrow> 'n
   \<Rightarrow> 'n jlocals \<times> 'n jintState" where
  "js_computePID_locals A M ist state target G dt =
     (let ex = jsub A (jt_x target) (js_x state);
          ey = jsub A (jt_y target) (js_y state);
          ez = jsub A (jt_z target) (js_z state);
          evx = jsub A (js_orZero A (jt_vx target)) (js_vx state);
          evy = jsub A (js_orZero A (jt_vy target)) (js_vy state);
          evz = jsub A (js_orZero A (jt_vz target)) (js_vz state);
          iEx = js_clamp M (jadd A (jint_iEx ist) (jmul A ex dt)) (jneg A (jpid_iMax G)) (jpid_iMax G);
          iEy = js_clamp M (jadd A (jint_iEy ist) (jmul A ey dt)) (jneg A (jpid_iMax G)) (jpid_iMax G);
          iEz = js_clamp M (jadd A (jint_iEz ist) (jmul A ez dt)) (jneg A (jpid_iMax G)) (jpid_iMax G);
          ax_des = jadd A (jadd A (jmul A (jpid_Kp_xy G) ex) (jmul A (jpid_Ki_xy G) iEx))
                     (jmul A (jpid_Kd_xy G) evx);
          ay_des = jadd A (jadd A (jmul A (jpid_Kp_z G) ey) (jmul A (jpid_Ki_z G) iEy))
                     (jmul A (jpid_Kd_z G) evy);
          az_des = jadd A (jadd A (jmul A (jpid_Kp_xy G) ez) (jmul A (jpid_Ki_xy G) iEz))
                     (jmul A (jpid_Kd_xy G) evz)
      in case js_thrustAttitude A M state ax_des ay_des az_des of (T, phi_des, theta_des) \<Rightarrow>
      let psi_des = js_orZero A (jt_yaw target);
          tau_phi = jsub A (jmul A (jpid_Kp_att G) (jsub A phi_des (js_phi state)))
                      (jmul A (jpid_Kd_att G) (js_p state));
          tau_theta = jsub A (jmul A (jpid_Kp_att G) (jsub A theta_des (js_theta state)))
                        (jmul A (jpid_Kd_att G) (js_q state));
          tau_psi = jsub A (jmul A (jpid_Kp_yaw G) (jsub A psi_des (js_psi state)))
                      (jmul A (jpid_Kd_yaw G) (js_r state))
      in (\<lparr> jl_ax_des = ax_des, jl_ay_des = ay_des, jl_az_des = az_des, jl_T = T,
             jl_phi_des = phi_des, jl_theta_des = theta_des,
             jl_tau_phi = tau_phi, jl_tau_theta = tau_theta, jl_tau_psi = tau_psi \<rparr>,
          ist\<lparr> jint_iEx := iEx, jint_iEy := iEy, jint_iEz := iEz,
               jint_s_x := ex, jint_s_y := ey, jint_s_z := ez,
               jint_T := T, jint_tau_phi := tau_phi,
               jint_tau_theta := tau_theta, jint_tau_psi := tau_psi \<rparr>))"

definition js_returned :: "'n jlocals \<times> 'n jintState \<Rightarrow> ('n \<times> 'n \<times> 'n \<times> 'n) \<times> 'n jintState" where
  "js_returned r =
     (case r of (l, ist') \<Rightarrow> ((jl_T l, jl_tau_phi l, jl_tau_theta l, jl_tau_psi l), ist'))"

definition js_computePID ::
  "'n arith \<Rightarrow> 'n mathlib \<Rightarrow> 'n jintState \<Rightarrow> 'n jstate \<Rightarrow> 'n jsetpoint \<Rightarrow> 'n jpid_gains \<Rightarrow> 'n
   \<Rightarrow> ('n \<times> 'n \<times> 'n \<times> 'n) \<times> 'n jintState" where
  "js_computePID A M ist state target G dt =
     js_returned (js_computePID_locals A M ist state target G dt)"

definition js_refAt :: "('n \<Rightarrow> 'n jsetpoint) option \<Rightarrow> 'n jsetpoint \<Rightarrow> 'n \<Rightarrow> 'n jsetpoint" where
  "js_refAt trajectoryFn target t = (case trajectoryFn of None \<Rightarrow> target | Some f \<Rightarrow> f t)"

text \<open>
  The loop of \<^verbatim>\<open>solve1D\<close>, \<^verbatim>\<open>for (let k = 1; k <= N; k++)\<close>, with its two
  accumulators; the counter is an integer, \<open>jnum A (real k)\<close> where it enters the arithmetic.
\<close>

function js_solve1D_loop ::
  "'n arith \<Rightarrow> nat \<Rightarrow> 'n \<Rightarrow> 'n \<Rightarrow> 'n \<Rightarrow> 'n \<Rightarrow> ('n \<Rightarrow> 'n) \<Rightarrow> 'n \<Rightarrow> 'n \<Rightarrow>
   nat \<Rightarrow> 'n \<Rightarrow> 'n \<Rightarrow> 'n \<times> 'n" where
  "js_solve1D_loop A N time dtPred pos vel refFn Q_p Q_v k totalAccel weightSum =
     (if k \<le> N then
        let tFuture = jadd A time (jmul A (jnum A (real k)) dtPred);
            ref = refFn tFuture;
            predPos = jadd A pos (jmul A vel (jmul A (jnum A (real k)) dtPred));
            errPos = jsub A ref predPos;
            w = jsub A (jnum A 1.0)
                  (jdiv A (jmul A (jnum A 0.3) (jsub A (jnum A (real k)) (jnum A 1)))
                          (jnum A (real N)))
        in js_solve1D_loop A N time dtPred pos vel refFn Q_p Q_v (k + 1)
             (jadd A totalAccel (jmul A w (jsub A (jmul A Q_p errPos) (jmul A Q_v vel))))
             (jadd A weightSum w)
      else (totalAccel, weightSum))"
  by pat_completeness auto
termination
  by (relation "measure (\<lambda>(A, N, time, dtPred, pos, vel, refFn, Q_p, Q_v, k, totalAccel,
        weightSum). N + 1 - k)") auto

declare js_solve1D_loop.simps [simp del]

text \<open>
  \<^verbatim>\<open>return totalAccel / (weightSum * (1 + R))\<close>: the division is performed whatever the
  divisor is, and its result, a number, \<^verbatim>\<open>NaN\<close> or an infinity, is returned.
\<close>

definition js_solve1D ::
  "'n arith \<Rightarrow> nat \<Rightarrow> 'n \<Rightarrow> 'n \<Rightarrow> 'n \<Rightarrow> 'n \<Rightarrow> ('n \<Rightarrow> 'n) \<Rightarrow> 'n \<Rightarrow> 'n \<Rightarrow> 'n \<Rightarrow> 'n" where
  "js_solve1D A N time dtPred pos vel refFn Q_p Q_v R =
     (case js_solve1D_loop A N time dtPred pos vel refFn Q_p Q_v 1 (jnum A 0) (jnum A 0) of
        (totalAccel, weightSum) \<Rightarrow>
          jdiv A totalAccel (jmul A weightSum (jadd A (jnum A 1) R)))"

text \<open>One pushed point: \<^verbatim>\<open>pos + vel * (k * dtPred) + 0.5 * a_des * (k * dtPred) ** 2\<close>.\<close>

definition js_rollout :: "'n arith \<Rightarrow> 'n mathlib \<Rightarrow> 'n \<Rightarrow> 'n \<Rightarrow> 'n \<Rightarrow> 'n \<Rightarrow> nat \<Rightarrow> 'n" where
  "js_rollout A M dtPred pos vel a_des k =
     jadd A (jadd A pos (jmul A vel (jmul A (jnum A (real k)) dtPred)))
       (jmul A (jmul A (jnum A 0.5) a_des) (jsquare M (jmul A (jnum A (real k)) dtPred)))"

function js_mpcPrediction_loop ::
  "'n arith \<Rightarrow> 'n mathlib \<Rightarrow> nat \<Rightarrow> 'n \<Rightarrow> 'n \<Rightarrow> 'n jstate \<Rightarrow> ('n \<Rightarrow> 'n jsetpoint) option \<Rightarrow>
   'n jsetpoint \<Rightarrow> 'n \<Rightarrow> 'n \<Rightarrow> 'n \<Rightarrow> nat \<Rightarrow> 'n jprediction list \<Rightarrow> 'n jprediction list" where
  "js_mpcPrediction_loop A M N time dtPred state trajectoryFn target ax_des ay_des az_des k acc =
     (if k \<le> N then
        let tF = jadd A time (jmul A (jnum A (real k)) dtPred);
            ref = js_refAt trajectoryFn target tF
        in js_mpcPrediction_loop A M N time dtPred state trajectoryFn target ax_des ay_des az_des
             (k + 1)
             (acc @ [\<lparr>
                jpred_x = js_rollout A M dtPred (js_x state) (js_vx state) ax_des k,
                jpred_y = js_rollout A M dtPred (js_y state) (js_vy state) ay_des k,
                jpred_z = js_rollout A M dtPred (js_z state) (js_vz state) az_des k \<rparr>])
      else acc)"
  by pat_completeness auto
termination
  by (relation "measure (\<lambda>(A, M, N, time, dtPred, state, trajectoryFn, target, ax_des, ay_des,
        az_des, k, acc). N + 1 - k)") auto

declare js_mpcPrediction_loop.simps [simp del]

definition js_computeMPC_locals ::
  "'n arith \<Rightarrow> 'n mathlib \<Rightarrow> 'n jintState \<Rightarrow> 'n jstate \<Rightarrow> 'n jsetpoint \<Rightarrow> 'n jmpc_gains \<Rightarrow> 'n
   \<Rightarrow> ('n \<Rightarrow> 'n jsetpoint) option \<Rightarrow> 'n \<Rightarrow> 'n jlocals \<times> 'n jintState" where
  "js_computeMPC_locals A M ist state target G dt trajectoryFn time =
     (let N = jmpc_N G;
          dtPred = jmul A dt (jnum A 2);
          ax_des = js_solve1D A N time dtPred (js_x state) (js_vx state)
                     (\<lambda>t. jt_x (js_refAt trajectoryFn target t))
                     (jmpc_Q_pos G) (jmpc_Q_vel G) (jmpc_R G);
          ay_des = js_solve1D A N time dtPred (js_y state) (js_vy state)
                     (\<lambda>t. jt_y (js_refAt trajectoryFn target t))
                     (jmpc_Q_pos G) (jmpc_Q_vel G) (jmpc_R G);
          az_des = js_solve1D A N time dtPred (js_z state) (js_vz state)
                     (\<lambda>t. jt_z (js_refAt trajectoryFn target t))
                     (jmpc_Q_pos G) (jmpc_Q_vel G) (jmpc_R G);
          mpcPrediction = js_mpcPrediction_loop A M N time dtPred state trajectoryFn target
                            ax_des ay_des az_des 0 []
      in case js_thrustAttitude A M state ax_des ay_des az_des of (T, phi_des, theta_des) \<Rightarrow>
      let tau_phi = jsub A (jmul A (jmpc_Kp_att G) (jsub A phi_des (js_phi state)))
                      (jmul A (jmpc_Kd_att G) (js_p state));
          tau_theta = jsub A (jmul A (jmpc_Kp_att G) (jsub A theta_des (js_theta state)))
                        (jmul A (jmpc_Kd_att G) (js_q state));
          tau_psi = jsub A (jmul A (jmpc_Kp_att G) (jsub A (jnum A 0) (js_psi state)))
                      (jmul A (jmpc_Kd_att G) (js_r state))
      in (\<lparr> jl_ax_des = ax_des, jl_ay_des = ay_des, jl_az_des = az_des, jl_T = T,
             jl_phi_des = phi_des, jl_theta_des = theta_des,
             jl_tau_phi = tau_phi, jl_tau_theta = tau_theta, jl_tau_psi = tau_psi \<rparr>,
          ist\<lparr> jint_mpcPrediction := Some mpcPrediction,
               jint_s_x := jsub A (jt_x target) (js_x state),
               jint_s_y := jsub A (jt_y target) (js_y state),
               jint_s_z := jsub A (jt_z target) (js_z state),
               jint_T := T, jint_tau_phi := tau_phi,
               jint_tau_theta := tau_theta, jint_tau_psi := tau_psi \<rparr>))"

definition js_computeMPC ::
  "'n arith \<Rightarrow> 'n mathlib \<Rightarrow> 'n jintState \<Rightarrow> 'n jstate \<Rightarrow> 'n jsetpoint \<Rightarrow> 'n jmpc_gains \<Rightarrow> 'n
   \<Rightarrow> ('n \<Rightarrow> 'n jsetpoint) option \<Rightarrow> 'n \<Rightarrow> ('n \<times> 'n \<times> 'n \<times> 'n) \<times> 'n jintState" where
  "js_computeMPC A M ist state target G dt trajectoryFn time =
     js_returned (js_computeMPC_locals A M ist state target G dt trajectoryFn time)"

subsection \<open>What the operations are assumed to satisfy\<close>

text \<open>
  Two groups of facts of IEEE 754 arithmetic and of the ECMAScript functions, each stated
  for the operations passed in. The first: an operation with \<^verbatim>\<open>NaN\<close> among its arguments
  returns \<^verbatim>\<open>NaN\<close> (this includes \<^verbatim>\<open>Math.max\<close> and \<^verbatim>\<open>Math.min\<close>), and every comparison
  with \<^verbatim>\<open>NaN\<close> is false.
\<close>

definition nanLaws :: "'n arith \<Rightarrow> 'n mathlib \<Rightarrow> bool" where
  "nanLaws A M \<longleftrightarrow>
     (\<forall>x y. jnan A x \<or> jnan A y \<longrightarrow> jnan A (jadd A x y)) \<and>
     (\<forall>x y. jnan A x \<or> jnan A y \<longrightarrow> jnan A (jsub A x y)) \<and>
     (\<forall>x y. jnan A x \<or> jnan A y \<longrightarrow> jnan A (jmul A x y)) \<and>
     (\<forall>x y. jnan A x \<or> jnan A y \<longrightarrow> jnan A (jdiv A x y)) \<and>
     (\<forall>x y. jnan A x \<or> jnan A y \<longrightarrow> jnan A (jmax M x y)) \<and>
     (\<forall>x y. jnan A x \<or> jnan A y \<longrightarrow> jnan A (jmin M x y)) \<and>
     (\<forall>x. jnan A x \<longrightarrow> jnan A (jsqrt M x)) \<and>
     (\<forall>x. jnan A x \<longrightarrow> jnan A (jasin M x)) \<and>
     (\<forall>x y. jnan A x \<or> jnan A y \<longrightarrow> jnan A (jatan2 M x y)) \<and>
     (\<forall>x y. jnan A x \<or> jnan A y \<longrightarrow> \<not> jlt A x y \<and> \<not> jle A x y)"

text \<open>
  The second, about zero, with \<open>jeq\<close> the equality \<^verbatim>\<open>===\<close>: zero times a finite number is
  zero, the square of zero is zero, adding zero to a number gives that number, half a finite
  number is finite, zero divided by zero is \<^verbatim>\<open>NaN\<close>; \<^verbatim>\<open>===\<close> is transitive, and \<^verbatim>\<open>NaN\<close>
  equals nothing.
\<close>

definition zeroLaws :: "'n arith \<Rightarrow> 'n mathlib \<Rightarrow> bool" where
  "zeroLaws A M \<longleftrightarrow>
     (\<forall>x y. jfinite A y \<and> jeq A x (jnum A 0) \<longrightarrow> jeq A (jmul A x y) (jnum A 0)) \<and>
     (\<forall>x y. jfinite A x \<and> jeq A y (jnum A 0) \<longrightarrow> jeq A (jmul A x y) (jnum A 0)) \<and>
     (\<forall>x. jeq A x (jnum A 0) \<longrightarrow> jeq A (jsquare M x) (jnum A 0)) \<and>
     (\<forall>x y. \<not> jnan A x \<and> jeq A y (jnum A 0) \<longrightarrow> jeq A (jadd A x y) x) \<and>
     (\<forall>x. jfinite A x \<longrightarrow> jfinite A (jmul A (jnum A 0.5) x)) \<and>
     (\<forall>x y. jeq A x (jnum A 0) \<and> jeq A y (jnum A 0) \<longrightarrow> jnan A (jdiv A x y)) \<and>
     (\<forall>x y z. jeq A x y \<and> jeq A y z \<longrightarrow> jeq A x z) \<and>
     (\<forall>x y. jeq A x y \<longrightarrow> \<not> jnan A x \<and> \<not> jnan A y) \<and>
     jeq A (jnum A 0) (jnum A 0) \<and> jfinite A (jnum A 1)"

text \<open>A value lies in an interval when both comparisons hold.\<close>

definition js_within :: "'n arith \<Rightarrow> 'n \<Rightarrow> 'n \<Rightarrow> 'n \<Rightarrow> bool" where
  "js_within A lo hi v \<longleftrightarrow> jle A lo v \<and> jle A v hi"

subsection \<open>An instance: the extended numbers\<close>

text \<open>
  The values of a JavaScript number: a finite number, the two infinities and \<^verbatim>\<open>NaN\<close>. The
  operations below follow IEEE 754 on them, with the result of an operation on finite
  numbers passed through a rounding function \<open>rnd\<close>. There is one zero: the sign of a zero
  shows only in a division by it, which takes it as positive here.
\<close>

datatype jsnum = Fin real | PInf | NInf | NaN

definition jsnum_sgn :: "jsnum \<Rightarrow> real" where
  "jsnum_sgn x = (case x of Fin a \<Rightarrow> sgn a | PInf \<Rightarrow> 1 | NInf \<Rightarrow> - 1 | NaN \<Rightarrow> 0)"

definition jsnum_ofSign :: "real \<Rightarrow> jsnum" where
  "jsnum_ofSign s = (if s = 0 then NaN else if 0 < s then PInf else NInf)"

definition jsnum_neg :: "jsnum \<Rightarrow> jsnum" where
  "jsnum_neg x = (case x of Fin a \<Rightarrow> Fin (- a) | PInf \<Rightarrow> NInf | NInf \<Rightarrow> PInf | NaN \<Rightarrow> NaN)"

definition jsnum_add :: "(real \<Rightarrow> jsnum) \<Rightarrow> jsnum \<Rightarrow> jsnum \<Rightarrow> jsnum" where
  "jsnum_add rnd x y =
     (case x of
        NaN \<Rightarrow> NaN
      | Fin a \<Rightarrow> (case y of Fin b \<Rightarrow> rnd (a + b) | _ \<Rightarrow> y)
      | PInf \<Rightarrow> (case y of NaN \<Rightarrow> NaN | NInf \<Rightarrow> NaN | _ \<Rightarrow> PInf)
      | NInf \<Rightarrow> (case y of NaN \<Rightarrow> NaN | PInf \<Rightarrow> NaN | _ \<Rightarrow> NInf))"

definition jsnum_sub :: "(real \<Rightarrow> jsnum) \<Rightarrow> jsnum \<Rightarrow> jsnum \<Rightarrow> jsnum" where
  "jsnum_sub rnd x y = jsnum_add rnd x (jsnum_neg y)"

definition jsnum_mul :: "(real \<Rightarrow> jsnum) \<Rightarrow> jsnum \<Rightarrow> jsnum \<Rightarrow> jsnum" where
  "jsnum_mul rnd x y =
     (case (x, y) of
        (Fin a, Fin b) \<Rightarrow> rnd (a * b)
      | _ \<Rightarrow> jsnum_ofSign (jsnum_sgn x * jsnum_sgn y))"

definition jsnum_div :: "(real \<Rightarrow> jsnum) \<Rightarrow> jsnum \<Rightarrow> jsnum \<Rightarrow> jsnum" where
  "jsnum_div rnd x y =
     (case y of
        NaN \<Rightarrow> NaN
      | Fin b \<Rightarrow> (case x of
                   Fin a \<Rightarrow> if b = 0 then jsnum_ofSign (sgn a) else rnd (a / b)
                 | _ \<Rightarrow> jsnum_ofSign (jsnum_sgn x * (if b < 0 then - 1 else 1)))
      | _ \<Rightarrow> (case x of Fin a \<Rightarrow> Fin 0 | _ \<Rightarrow> NaN))"

definition jsnum_lt :: "jsnum \<Rightarrow> jsnum \<Rightarrow> bool" where
  "jsnum_lt x y =
     (case x of
        NaN \<Rightarrow> False
      | Fin a \<Rightarrow> (case y of Fin b \<Rightarrow> a < b | PInf \<Rightarrow> True | _ \<Rightarrow> False)
      | PInf \<Rightarrow> False
      | NInf \<Rightarrow> (case y of Fin b \<Rightarrow> True | PInf \<Rightarrow> True | _ \<Rightarrow> False))"

definition jsnum_eq :: "jsnum \<Rightarrow> jsnum \<Rightarrow> bool" where
  "jsnum_eq x y \<longleftrightarrow> x = y \<and> x \<noteq> NaN"

definition jsnum_le :: "jsnum \<Rightarrow> jsnum \<Rightarrow> bool" where
  "jsnum_le x y \<longleftrightarrow> jsnum_lt x y \<or> jsnum_eq x y"

definition jsnum_finite :: "jsnum \<Rightarrow> bool" where
  "jsnum_finite x = (case x of Fin a \<Rightarrow> True | _ \<Rightarrow> False)"

definition jsnum_max :: "jsnum \<Rightarrow> jsnum \<Rightarrow> jsnum" where
  "jsnum_max x y = (if x = NaN \<or> y = NaN then NaN else if jsnum_lt x y then y else x)"

definition jsnum_min :: "jsnum \<Rightarrow> jsnum \<Rightarrow> jsnum" where
  "jsnum_min x y = (if x = NaN \<or> y = NaN then NaN else if jsnum_lt y x then y else x)"

definition jsnum_sqrt :: "(real \<Rightarrow> jsnum) \<Rightarrow> jsnum \<Rightarrow> jsnum" where
  "jsnum_sqrt rnd x =
     (case x of Fin a \<Rightarrow> if a < 0 then NaN else rnd (sqrt a) | PInf \<Rightarrow> PInf | _ \<Rightarrow> NaN)"

definition jsnum_abs :: "jsnum \<Rightarrow> jsnum" where
  "jsnum_abs x = (case x of Fin a \<Rightarrow> Fin \<bar>a\<bar> | NaN \<Rightarrow> NaN | _ \<Rightarrow> PInf)"

definition jsnum_cos :: "(real \<Rightarrow> jsnum) \<Rightarrow> jsnum \<Rightarrow> jsnum" where
  "jsnum_cos rnd x = (case x of Fin a \<Rightarrow> rnd (cos a) | _ \<Rightarrow> NaN)"

definition jsnum_sin :: "(real \<Rightarrow> jsnum) \<Rightarrow> jsnum \<Rightarrow> jsnum" where
  "jsnum_sin rnd x = (case x of Fin a \<Rightarrow> rnd (sin a) | _ \<Rightarrow> NaN)"

definition jsnum_asin :: "(real \<Rightarrow> jsnum) \<Rightarrow> jsnum \<Rightarrow> jsnum" where
  "jsnum_asin rnd x = (case x of Fin a \<Rightarrow> if \<bar>a\<bar> \<le> 1 then rnd (arcsin a) else NaN | _ \<Rightarrow> NaN)"

definition jsnum_atan2 :: "(real \<Rightarrow> jsnum) \<Rightarrow> jsnum \<Rightarrow> jsnum \<Rightarrow> jsnum" where
  "jsnum_atan2 rnd y x =
     (case y of
        NaN \<Rightarrow> NaN
      | Fin b \<Rightarrow> (case x of
                   NaN \<Rightarrow> NaN
                 | Fin a \<Rightarrow> rnd (atan2 b a)
                 | PInf \<Rightarrow> Fin 0
                 | NInf \<Rightarrow> rnd (if b < 0 then - pi else pi))
      | PInf \<Rightarrow> (case x of
                   NaN \<Rightarrow> NaN
                 | Fin a \<Rightarrow> rnd (pi / 2)
                 | PInf \<Rightarrow> rnd (pi / 4)
                 | NInf \<Rightarrow> rnd (3 * pi / 4))
      | NInf \<Rightarrow> (case x of
                   NaN \<Rightarrow> NaN
                 | Fin a \<Rightarrow> rnd (- pi / 2)
                 | PInf \<Rightarrow> rnd (- pi / 4)
                 | NInf \<Rightarrow> rnd (- 3 * pi / 4)))"

definition arithOf :: "(real \<Rightarrow> jsnum) \<Rightarrow> jsnum arith" where
  "arithOf rnd =
     \<lparr> jnum = rnd, jadd = jsnum_add rnd, jsub = jsnum_sub rnd, jmul = jsnum_mul rnd,
       jdiv = jsnum_div rnd, jneg = jsnum_neg, jlt = jsnum_lt, jle = jsnum_le, jeq = jsnum_eq,
       jnan = (\<lambda>x. x = NaN), jfinite = jsnum_finite \<rparr>"

definition mathOf :: "(real \<Rightarrow> jsnum) \<Rightarrow> jsnum mathlib" where
  "mathOf rnd =
     \<lparr> jmax = jsnum_max, jmin = jsnum_min, jsqrt = jsnum_sqrt rnd, jabs = jsnum_abs,
       jcos = jsnum_cos rnd, jsin = jsnum_sin rnd, jasin = jsnum_asin rnd,
       jatan2 = jsnum_atan2 rnd, jsquare = (\<lambda>x. jsnum_mul rnd x x) \<rparr>"

text \<open>The instance in which no operation rounds.\<close>

definition exactArith :: "jsnum arith" where
  "exactArith = arithOf Fin"

definition exactMath :: "jsnum mathlib" where
  "exactMath = mathOf Fin"


text \<open>
  A state in which every scalar is \<^verbatim>\<open>NaN\<close>. It is the state the application is in after
  its tenth step when it is started as shipped (algorithm PID with the default gains,
  pattern CIRCLE, \<^verbatim>\<open>DT = 1/120\<close>, from \<^verbatim>\<open>createState()\<close>): the attitude loop diverges,
  the body rates \<open>p\<close> and \<open>q\<close> overflow to \<^verbatim>\<open>Infinity\<close> in the ninth step, and the tenth
  step computes \<^verbatim>\<open>Math.cos(Infinity)\<close>.
\<close>

definition nanState :: "jsnum jstate" where
  "nanState = \<lparr> js_x = NaN, js_y = NaN, js_z = NaN, js_vx = NaN, js_vy = NaN, js_vz = NaN,
     js_phi = NaN, js_theta = NaN, js_psi = NaN, js_p = NaN, js_q = NaN, js_r = NaN,
     js_motors = [Fin 2200, NaN, Fin 0, NaN] \<rparr>"

section \<open>Facts about the plant\<close>

lemma clamp_bounds: "lo \<le> hi \<Longrightarrow> lo \<le> clamp v lo hi \<and> clamp v lo hi \<le> hi"
  by (simp add: clamp_def)

lemma clamp_id: "lo \<le> v \<Longrightarrow> v \<le> hi \<Longrightarrow> clamp v lo hi = v"
  by (simp add: clamp_def)

lemma clamp_abs: "0 \<le> b \<Longrightarrow> \<bar>clamp v (- b) b\<bar> \<le> b"
  by (simp add: clamp_def abs_le_iff)

lemma PARAMS_simps:
  "p_m PARAMS = 0.5" "p_g PARAMS = 9.81" "p_Ixx PARAMS = 0.0023" "p_Iyy PARAMS = 0.0023"
  "p_Izz PARAMS = 0.004" "p_L PARAMS = 0.17" "p_kT PARAMS = 2.98 / 10 ^ 6"
  "p_kD PARAMS = 1.14 / 10 ^ 7" "p_Cd PARAMS = 0.04" "p_wMax PARAMS = 2200" "p_wMin PARAMS = 0"
  by (simp_all add: PARAMS_def)

section \<open>Facts about the controllers\<close>

lemma computePID_thrust:
  "thrustAttitude s (l_ax_des (fst (computePID_locals ist s tg G dt)))
     (l_ay_des (fst (computePID_locals ist s tg G dt)))
     (l_az_des (fst (computePID_locals ist s tg G dt))) =
   (l_T (fst (computePID_locals ist s tg G dt)),
    l_phi_des (fst (computePID_locals ist s tg G dt)),
    l_theta_des (fst (computePID_locals ist s tg G dt)))"
  by (simp add: computePID_locals_def Let_def split: prod.splits)

lemma thrustAttitude_T:
  "fst (thrustAttitude s ax ay az) =
     clamp (p_m PARAMS * (p_g PARAMS + ay) / max (cos (state_phi s) * cos (state_theta s)) 0.1)
       0 (p_m PARAMS * p_g PARAMS * 4)"
  by (simp add: thrustAttitude_def Let_def)

lemma computePID_outer:
  "l_ax_des (fst (computePID_locals ist s tg G dt)) =
     pid_Kp_xy G * (target_x tg - state_x s)
       + pid_Ki_xy G * int_iEx (snd (computePID_locals ist s tg G dt))
       + pid_Kd_xy G * (orZero (target_vx tg) - state_vx s)"
  "l_ay_des (fst (computePID_locals ist s tg G dt)) =
     pid_Kp_z G * (target_y tg - state_y s)
       + pid_Ki_z G * int_iEy (snd (computePID_locals ist s tg G dt))
       + pid_Kd_z G * (orZero (target_vy tg) - state_vy s)"
  "l_az_des (fst (computePID_locals ist s tg G dt)) =
     pid_Kp_xy G * (target_z tg - state_z s)
       + pid_Ki_xy G * int_iEz (snd (computePID_locals ist s tg G dt))
       + pid_Kd_xy G * (orZero (target_vz tg) - state_vz s)"
  "int_iEx (snd (computePID_locals ist s tg G dt)) =
     clamp (int_iEx ist + (target_x tg - state_x s) * dt) (- pid_iMax G) (pid_iMax G)"
  "int_iEy (snd (computePID_locals ist s tg G dt)) =
     clamp (int_iEy ist + (target_y tg - state_y s) * dt) (- pid_iMax G) (pid_iMax G)"
  "int_iEz (snd (computePID_locals ist s tg G dt)) =
     clamp (int_iEz ist + (target_z tg - state_z s) * dt) (- pid_iMax G) (pid_iMax G)"
  by (simp_all add: computePID_locals_def Let_def split: prod.splits)

lemma computePID_returns_T:
  "fst (fst (computePID ist s tg G dt)) = l_T (fst (computePID_locals ist s tg G dt))"
  by (simp add: computePID_def returned_def split: prod.splits)

lemma sat_zero: "phi \<le> 0 \<Longrightarrow> sat 0 phi = 0"
  by (simp add: sat_def sign_def)

lemma computeSMC_outer:
  "int_s_x (snd (computeSMC_locals ist s tg G dt)) =
     (orZero (target_vx tg) - state_vx s) + smc_lambda_xy G * (target_x tg - state_x s)"
  "int_s_y (snd (computeSMC_locals ist s tg G dt)) =
     (orZero (target_vy tg) - state_vy s) + smc_lambda_z G * (target_y tg - state_y s)"
  "int_s_z (snd (computeSMC_locals ist s tg G dt)) =
     (orZero (target_vz tg) - state_vz s) + smc_lambda_xy G * (target_z tg - state_z s)"
  "l_ax_des (fst (computeSMC_locals ist s tg G dt)) =
     smc_lambda_xy G * (orZero (target_vx tg) - state_vx s)
       + smc_eta_xy G * sat (int_s_x (snd (computeSMC_locals ist s tg G dt))) (smc_phi_xy G)"
  "l_ay_des (fst (computeSMC_locals ist s tg G dt)) =
     smc_lambda_z G * (orZero (target_vy tg) - state_vy s)
       + smc_eta_z G * sat (int_s_y (snd (computeSMC_locals ist s tg G dt))) (smc_phi_z G)"
  "l_az_des (fst (computeSMC_locals ist s tg G dt)) =
     smc_lambda_xy G * (orZero (target_vz tg) - state_vz s)
       + smc_eta_xy G * sat (int_s_z (snd (computeSMC_locals ist s tg G dt))) (smc_phi_xy G)"
  by (simp_all add: computeSMC_locals_def Let_def split: prod.splits)

lemma smc_example:
  "int_s_x (snd (computeSMC_locals resetInternal createState (mkSetpoint (- 1) 0 0 2.5 0 0 0)
      defaultGains_SMC (1 / 120))) = 0"
  "int_s_y (snd (computeSMC_locals resetInternal createState (mkSetpoint (- 1) 0 0 2.5 0 0 0)
      defaultGains_SMC (1 / 120))) = 0"
  "int_s_z (snd (computeSMC_locals resetInternal createState (mkSetpoint (- 1) 0 0 2.5 0 0 0)
      defaultGains_SMC (1 / 120))) = 0"
  by (simp_all add: computeSMC_outer createState_def mkSetpoint_def defaultGains_SMC_def
        orZero_def)

section \<open>Facts about the reference generator\<close>

lemma createState_simps:
  "state_x createState = 0" "state_y createState = 0" "state_z createState = 0"
  "state_vx createState = 0" "state_vy createState = 0" "state_vz createState = 0"
  "state_phi createState = 0" "state_theta createState = 0" "state_psi createState = 0"
  "state_p createState = 0" "state_q createState = 0" "state_r createState = 0"
  by (simp_all add: createState_def)

lemma thrustAttitude_rest:
  "thrustAttitude createState 0 (1921 / 240) 0 = (21377 / 2400, 0, 0)"
  by (simp add: thrustAttitude_def Let_def createState_def PARAMS_simps clamp_def atan2_def)

lemma computePID_example:
  "computePID resetInternal createState (mkSetpoint 0 1 0 0 0 0 0) defaultGains_PID (1 / 120) =
     ((21377 / 2400, 0, 0, 0),
      resetInternal\<lparr> int_iEy := 1 / 120, int_s_y := 1, int_T := 21377 / 2400 \<rparr>)"
proof -
  have a: "computePID_locals resetInternal createState (mkSetpoint 0 1 0 0 0 0 0)
             defaultGains_PID (1 / 120) =
     (\<lparr> l_ax_des = 0, l_ay_des = 1921 / 240, l_az_des = 0, l_T = 21377 / 2400,
         l_phi_des = 0, l_theta_des = 0, l_tau_phi = 0, l_tau_theta = 0, l_tau_psi = 0 \<rparr>,
      resetInternal\<lparr> int_iEy := 1 / 120, int_s_y := 1, int_T := 21377 / 2400 \<rparr>)"
    unfolding computePID_locals_def Let_def
    by (simp add: resetInternal_def mkSetpoint_def defaultGains_PID_def orZero_def clamp_def
          createState_simps thrustAttitude_rest)
  show ?thesis by (simp add: computePID_def a returned_def)
qed







section \<open>Facts about the program over JavaScript's numbers\<close>

lemma arithOf_simps:
  "jnum (arithOf rnd) = rnd" "jadd (arithOf rnd) = jsnum_add rnd" "jsub (arithOf rnd) = jsnum_sub rnd"
  "jmul (arithOf rnd) = jsnum_mul rnd" "jdiv (arithOf rnd) = jsnum_div rnd"
  "jneg (arithOf rnd) = jsnum_neg" "jlt (arithOf rnd) = jsnum_lt" "jle (arithOf rnd) = jsnum_le"
  "jeq (arithOf rnd) = jsnum_eq" "jnan (arithOf rnd) x = (x = NaN)"
  "jfinite (arithOf rnd) = jsnum_finite"
  unfolding arithOf_def by simp_all

lemma mathOf_simps:
  "jmax (mathOf rnd) = jsnum_max" "jmin (mathOf rnd) = jsnum_min" "jsqrt (mathOf rnd) = jsnum_sqrt rnd"
  "jabs (mathOf rnd) = jsnum_abs" "jcos (mathOf rnd) = jsnum_cos rnd" "jsin (mathOf rnd) = jsnum_sin rnd"
  "jasin (mathOf rnd) = jsnum_asin rnd" "jatan2 (mathOf rnd) = jsnum_atan2 rnd"
  "jsquare (mathOf rnd) x = jsnum_mul rnd x x"
  unfolding mathOf_def by simp_all

lemma jsnum_add_NaN: "(\<And>r. rnd r \<noteq> NaN) \<Longrightarrow> x = NaN \<or> y = NaN \<Longrightarrow> jsnum_add rnd x y = NaN"
  unfolding jsnum_add_def by (cases x; cases y; simp)

lemma jsnum_neg_NaN: "jsnum_neg x = NaN \<longleftrightarrow> x = NaN"
  unfolding jsnum_neg_def by (cases x; simp)

lemma jsnum_sub_NaN: "(\<And>r. rnd r \<noteq> NaN) \<Longrightarrow> x = NaN \<or> y = NaN \<Longrightarrow> jsnum_sub rnd x y = NaN"
  unfolding jsnum_sub_def by (rule jsnum_add_NaN) (simp_all add: jsnum_neg_NaN)

lemma jsnum_mul_NaN: "x = NaN \<or> y = NaN \<Longrightarrow> jsnum_mul rnd x y = NaN"
  unfolding jsnum_mul_def jsnum_sgn_def jsnum_ofSign_def by (cases x; cases y; simp)

lemma jsnum_div_NaN: "x = NaN \<or> y = NaN \<Longrightarrow> jsnum_div rnd x y = NaN"
  unfolding jsnum_div_def jsnum_sgn_def jsnum_ofSign_def by (cases x; cases y; simp)

lemma jsnum_max_NaN: "x = NaN \<or> y = NaN \<Longrightarrow> jsnum_max x y = NaN"
  unfolding jsnum_max_def by simp

lemma jsnum_min_NaN: "x = NaN \<or> y = NaN \<Longrightarrow> jsnum_min x y = NaN"
  unfolding jsnum_min_def by simp

lemma jsnum_atan2_NaN: "x = NaN \<or> y = NaN \<Longrightarrow> jsnum_atan2 rnd x y = NaN"
  unfolding jsnum_atan2_def by (cases x; cases y; simp)

lemma jsnum_lt_NaN: "x = NaN \<or> y = NaN \<Longrightarrow> \<not> jsnum_lt x y"
  unfolding jsnum_lt_def by (cases x; cases y; simp)

lemma jsnum_le_NaN: "x = NaN \<or> y = NaN \<Longrightarrow> \<not> jsnum_le x y"
  unfolding jsnum_le_def jsnum_eq_def using jsnum_lt_NaN by auto

lemma nanLaws_arithOf:
  assumes "\<And>r. rnd r \<noteq> NaN"
  shows "nanLaws (arithOf rnd) (mathOf rnd)"
  unfolding nanLaws_def arithOf_simps mathOf_simps
  apply (intro conjI allI impI)
            apply (rule jsnum_add_NaN [OF assms], assumption)
           apply (rule jsnum_sub_NaN [OF assms], assumption)
          apply (erule jsnum_mul_NaN)
         apply (erule jsnum_div_NaN)
        apply (erule jsnum_max_NaN)
       apply (erule jsnum_min_NaN)
      apply (simp add: jsnum_sqrt_def)
     apply (simp add: jsnum_asin_def)
    apply (erule jsnum_atan2_NaN)
   apply (erule jsnum_lt_NaN)
  apply (erule jsnum_le_NaN)
  done

lemma nanLaws_exact: "nanLaws exactArith exactMath"
  unfolding exactArith_def exactMath_def by (rule nanLaws_arithOf) simp

lemma jsnum_eq_zero: "jsnum_eq x (Fin 0) \<longleftrightarrow> x = Fin 0"
  unfolding jsnum_eq_def by auto

lemma zeroLaws_exact: "zeroLaws exactArith exactMath"
  unfolding zeroLaws_def exactArith_def exactMath_def arithOf_simps mathOf_simps jsnum_eq_zero
  apply (intro conjI allI impI)
           apply (case_tac y; simp add: jsnum_mul_def jsnum_finite_def)
          apply (case_tac x; simp add: jsnum_mul_def jsnum_finite_def)
         apply (simp add: jsnum_mul_def)
        apply (case_tac x; simp add: jsnum_add_def jsnum_eq_def)
       apply (case_tac x; simp add: jsnum_mul_def jsnum_finite_def)
      apply (simp add: jsnum_div_def jsnum_ofSign_def)
      apply (simp add: jsnum_eq_def)
     apply (simp add: jsnum_eq_def)
    apply (auto simp add: jsnum_eq_def)[1]
   apply simp
  apply (simp add: jsnum_finite_def)
  done

lemma nanLawsD:
  assumes "nanLaws A M"
  shows "jnan A x \<Longrightarrow> jnan A (jadd A x y)" "jnan A y \<Longrightarrow> jnan A (jadd A x y)"
    "jnan A x \<Longrightarrow> jnan A (jsub A x y)" "jnan A y \<Longrightarrow> jnan A (jsub A x y)"
    "jnan A x \<Longrightarrow> jnan A (jmul A x y)" "jnan A y \<Longrightarrow> jnan A (jmul A x y)"
    "jnan A x \<Longrightarrow> jnan A (jdiv A x y)" "jnan A y \<Longrightarrow> jnan A (jdiv A x y)"
    "jnan A x \<Longrightarrow> jnan A (jmax M x y)" "jnan A y \<Longrightarrow> jnan A (jmax M x y)"
    "jnan A x \<Longrightarrow> jnan A (jmin M x y)" "jnan A y \<Longrightarrow> jnan A (jmin M x y)"
    "jnan A x \<Longrightarrow> jnan A (jsqrt M x)" "jnan A x \<Longrightarrow> jnan A (jasin M x)"
    "jnan A x \<Longrightarrow> jnan A (jatan2 M x y)" "jnan A y \<Longrightarrow> jnan A (jatan2 M x y)"
    "jnan A x \<Longrightarrow> \<not> jlt A x y" "jnan A y \<Longrightarrow> \<not> jlt A x y"
    "jnan A x \<Longrightarrow> \<not> jle A x y" "jnan A y \<Longrightarrow> \<not> jle A x y"
  using assms unfolding nanLaws_def by simp_all

lemma nan_clamp:
  assumes L: "nanLaws A M"
  shows "jnan A v \<Longrightarrow> jnan A (js_clamp M v lo hi)"
  unfolding js_clamp_def by (simp add: nanLawsD [OF L])

lemma nan_within:
  assumes L: "nanLaws A M"
  shows "jnan A v \<Longrightarrow> \<not> js_within A lo hi v"
  unfolding js_within_def by (simp add: nanLawsD [OF L])

lemma js_rk4_y:
  "js_y (js_rk4 A M s u env dt) =
     (let k1 = js_derivatives A M s u env;
          k2 = js_derivatives A M (js_addScaled A s k1 (jdiv A dt (jnum A 2))) u env;
          k3 = js_derivatives A M (js_addScaled A s k2 (jdiv A dt (jnum A 2))) u env;
          k4 = js_derivatives A M (js_addScaled A s k3 dt) u env
      in js_combine A dt (js_y s) (jk_dy k1) (jk_dy k2) (jk_dy k3) (jk_dy k4))"
  unfolding js_rk4_def Let_def by simp

lemma js_rk4_y_nan:
  assumes L: "nanLaws A M"
  shows "jnan A (js_y s) \<Longrightarrow> jnan A (js_y (js_rk4 A M s u env dt))"
  unfolding js_rk4_y js_combine_def Let_def by (simp add: nanLawsD [OF L])

lemma js_step_y: "js_y (js_step A M s u env dt) = js_y (js_groundContact A M (js_rk4 A M s u env dt))"
  unfolding js_step_def by simp

lemma js_step_motors:
  "js_motors (js_step A M s (T, tauPhi, tauTheta, tauPsi) env dt) =
     js_allocateMotors A M T tauPhi tauTheta tauPsi"
  unfolding js_step_def by simp

lemma js_groundContact_nan:
  assumes L: "nanLaws A M"
  shows "jnan A (js_y r) \<Longrightarrow> js_groundContact A M r = r"
  unfolding js_groundContact_def by (simp add: nanLawsD [OF L])

lemma js_allocateMotors_nan:
  assumes L: "nanLaws A M" and "jnan A T"
  shows "list_all (jnan A) (js_allocateMotors A M T tauPhi tauTheta tauPsi)"
  using assms(2) unfolding js_allocateMotors_def Let_def
  by (simp add: nanLawsD [OF L] nan_clamp [OF L])

lemma js_thrustAttitude_nan:
  assumes L: "nanLaws A M" and "jnan A ay_des"
  shows "case js_thrustAttitude A M state ax_des ay_des az_des of (T, phi_des, theta_des) \<Rightarrow>
           jnan A T \<and> jnan A phi_des \<and> jnan A theta_des"
  using assms(2) unfolding js_thrustAttitude_def Let_def
  by (simp add: nanLawsD [OF L] nan_clamp [OF L])

lemma js_computePID_ay:
  "jl_ay_des (fst (js_computePID_locals A M ist state target G dt)) =
     jadd A (jadd A (jmul A (jpid_Kp_z G) (jsub A (jt_y target) (js_y state)))
               (jmul A (jpid_Ki_z G)
                  (js_clamp M (jadd A (jint_iEy ist) (jmul A (jsub A (jt_y target) (js_y state)) dt))
                     (jneg A (jpid_iMax G)) (jpid_iMax G))))
       (jmul A (jpid_Kd_z G) (jsub A (js_orZero A (jt_vy target)) (js_vy state)))"
  unfolding js_computePID_locals_def Let_def by (simp split: prod.splits)

lemma js_computePID_thrustAttitude:
  "(jl_T (fst (js_computePID_locals A M ist state target G dt)),
    jl_phi_des (fst (js_computePID_locals A M ist state target G dt)),
    jl_theta_des (fst (js_computePID_locals A M ist state target G dt))) =
   js_thrustAttitude A M state
     (jl_ax_des (fst (js_computePID_locals A M ist state target G dt)))
     (jl_ay_des (fst (js_computePID_locals A M ist state target G dt)))
     (jl_az_des (fst (js_computePID_locals A M ist state target G dt)))"
  unfolding js_computePID_locals_def Let_def by (simp split: prod.splits)

lemma js_computePID_T:
  "fst (fst (js_computePID A M ist state target G dt)) =
     jl_T (fst (js_computePID_locals A M ist state target G dt))"
  unfolding js_computePID_def js_returned_def by (simp split: prod.splits)

section \<open>The claims\<close>

subsection \<open>C1: gains of the PID outer loop\<close>

text \<open>
  C1, as amended. In the PID outer loop the altitude channel (\<open>y\<close>) is computed with the
  triple \<open>Kp_z, Ki_z, Kd_z\<close> and the horizontal channels (\<open>x\<close> and \<open>z\<close>) with the triple
  \<open>Kp_xy, Ki_xy, Kd_xy\<close>, each from the position error, the clamped integrator and the
  velocity error of its own axis, for every state, target, gain set, \<open>dt\<close> and internal
  state; the returned thrust is the clamp of \<open>m (g + ay_des) / max (cos \<phi> cos \<theta>) 0.1\<close>
  for that \<open>ay_des\<close>.
\<close>

theorem pid_outer_loop_gains:
  "l_ax_des (fst (computePID_locals ist s tg G dt)) =
     pid_Kp_xy G * (target_x tg - state_x s)
       + pid_Ki_xy G * int_iEx (snd (computePID_locals ist s tg G dt))
       + pid_Kd_xy G * (orZero (target_vx tg) - state_vx s) \<and>
   l_ay_des (fst (computePID_locals ist s tg G dt)) =
     pid_Kp_z G * (target_y tg - state_y s)
       + pid_Ki_z G * int_iEy (snd (computePID_locals ist s tg G dt))
       + pid_Kd_z G * (orZero (target_vy tg) - state_vy s) \<and>
   l_az_des (fst (computePID_locals ist s tg G dt)) =
     pid_Kp_xy G * (target_z tg - state_z s)
       + pid_Ki_xy G * int_iEz (snd (computePID_locals ist s tg G dt))
       + pid_Kd_xy G * (orZero (target_vz tg) - state_vz s) \<and>
   int_iEx (snd (computePID_locals ist s tg G dt)) =
     clamp (int_iEx ist + (target_x tg - state_x s) * dt) (- pid_iMax G) (pid_iMax G) \<and>
   int_iEy (snd (computePID_locals ist s tg G dt)) =
     clamp (int_iEy ist + (target_y tg - state_y s) * dt) (- pid_iMax G) (pid_iMax G) \<and>
   int_iEz (snd (computePID_locals ist s tg G dt)) =
     clamp (int_iEz ist + (target_z tg - state_z s) * dt) (- pid_iMax G) (pid_iMax G) \<and>
   fst (fst (computePID ist s tg G dt)) =
     clamp (p_m PARAMS * (p_g PARAMS + l_ay_des (fst (computePID_locals ist s tg G dt)))
              / max (cos (state_phi s) * cos (state_theta s)) 0.1)
       0 (p_m PARAMS * p_g PARAMS * 4)"
proof -
  have "l_T (fst (computePID_locals ist s tg G dt)) =
     fst (thrustAttitude s (l_ax_des (fst (computePID_locals ist s tg G dt)))
            (l_ay_des (fst (computePID_locals ist s tg G dt)))
            (l_az_des (fst (computePID_locals ist s tg G dt))))"
    by (simp only: computePID_thrust fst_conv)
  then have "fst (fst (computePID ist s tg G dt)) =
     clamp (p_m PARAMS * (p_g PARAMS + l_ay_des (fst (computePID_locals ist s tg G dt)))
              / max (cos (state_phi s) * cos (state_theta s)) 0.1)
       0 (p_m PARAMS * p_g PARAMS * 4)"
    by (simp only: computePID_returns_T thrustAttitude_T)
  with computePID_outer[of ist s tg G dt] show ?thesis by blast
qed

text \<open>
  The claim as stated has the two triples exchanged. With the default gains, the vehicle
  at rest at the origin and the target one metre up, the source's altitude channel is
  \<open>8 + 0.5 / 120\<close>, the claimed one \<open>4 + 0.2 / 120\<close>.
\<close>

theorem pid_outer_loop_gains_counterexample:
  "(l_ax_des (fst (computePID_locals resetInternal createState (mkSetpoint 0 1 0 0 0 0 0)
       defaultGains_PID (1 / 120))),
    l_ay_des (fst (computePID_locals resetInternal createState (mkSetpoint 0 1 0 0 0 0 0)
       defaultGains_PID (1 / 120))),
    l_az_des (fst (computePID_locals resetInternal createState (mkSetpoint 0 1 0 0 0 0 0)
       defaultGains_PID (1 / 120)))) = (0, 1921 / 240, 0) \<and>
   pidAccelClaimed resetInternal createState (mkSetpoint 0 1 0 0 0 0 0)
       defaultGains_PID (1 / 120) = (0, 2401 / 600, 0)"
  by (simp add: computePID_outer pidAccelClaimed_def Let_def
        resetInternal_def createState_def mkSetpoint_def defaultGains_PID_def orZero_def
        clamp_def)

subsection \<open>C2: allocation followed by mixing\<close>

text \<open>
  C2. When none of the four squared speeds (\<open>a - b - c - d\<close> and its three companions) lies
  outside
  \<open>[0, wMax\<^sup>2]\<close>, the forward mixing of the motor speeds that \<^verbatim>\<open>allocateMotors\<close>
  returns is the input \<open>(T, \<tau>\<phi>, \<tau>\<theta>, \<tau>\<psi>)\<close> again, exactly, in real arithmetic.
\<close>

theorem allocateMotors_roundtrip:
  assumes "list_all (\<lambda>v. 0 \<le> v \<and> v \<le> p_wMax PARAMS * p_wMax PARAMS)
             (omegaSq T tauPhi tauTheta tauPsi)"
  shows "forwardMix (allocateMotors T tauPhi tauTheta tauPsi) = (T, tauPhi, tauTheta, tauPsi)"
proof -
  have eq: "allocateMotors T tauPhi tauTheta tauPsi = map sqrt (omegaSq T tauPhi tauTheta tauPsi)"
    unfolding allocateMotors_def Let_def using assms
    by (auto simp: list_all_iff clamp_id)
  have nn: "list_all (\<lambda>v. 0 \<le> v) (omegaSq T tauPhi tauTheta tauPsi)"
    using assms by (auto simp: list_all_iff)
  show ?thesis
    unfolding eq using nn
    by (simp add: forwardMix_def omegaSq_def Let_def PARAMS_simps)
qed

text \<open>Hover thrust with a roll and a yaw torque: no motor saturates.\<close>

theorem allocateMotors_roundtrip_witness:
  "list_all (\<lambda>v. 0 \<le> v \<and> v \<le> p_wMax PARAMS * p_wMax PARAMS) (omegaSq 4.905 0.01 0 0.001) \<and>
   forwardMix (allocateMotors 4.905 0.01 0 0.001) = (4.905, 0.01, 0, 0.001)"
proof -
  have s0: "0 \<le> sqrt 2" by simp
  have s2: "sqrt 2 \<le> 2" by (rule real_le_lsqrt) simp_all
  have h: "list_all (\<lambda>v. 0 \<le> v \<and> v \<le> p_wMax PARAMS * p_wMax PARAMS)
             (omegaSq 4.905 0.01 0 0.001)"
    unfolding omegaSq_def Let_def PARAMS_simps list.pred_inject
    apply simp
    apply (insert s0 s2)
    apply (intro conjI)
    apply linarith+
    done
  show ?thesis using h allocateMotors_roundtrip[OF h] by simp
qed


subsection \<open>C3: ground contact\<close>

text \<open>
  C3. The claim is that after every plant step \<open>y \<ge> 0\<close>. The step enforces it with
  \<^verbatim>\<open>if (s.y < 0) { s.y = 0; ... }\<close>, and a comparison with \<^verbatim>\<open>NaN\<close> is false: for every
  arithmetic in which \<^verbatim>\<open>NaN\<close> propagates and compares false, a step from a state whose
  height is \<^verbatim>\<open>NaN\<close> returns a state whose height is \<^verbatim>\<open>NaN\<close>, and \<open>0 \<le> y\<close> does not
  hold of it.
\<close>

theorem step_NaN_height:
  assumes "nanLaws A M" and "jnan A (js_y s)"
  shows "jnan A (js_y (js_step A M s u env dt)) \<and>
         \<not> jle A (jnum A 0) (js_y (js_step A M s u env dt))"
proof -
  have r: "jnan A (js_y (js_rk4 A M s u env dt))"
    using assms by (rule js_rk4_y_nan)
  have "js_y (js_step A M s u env dt) = js_y (js_rk4 A M s u env dt)"
    unfolding js_step_y using r by (simp add: js_groundContact_nan [OF assms(1)])
  thus ?thesis using r by (simp add: nanLawsD [OF assms(1)])
qed

text \<open>
  The eleventh step of the application as shipped: it starts from \<open>nanState\<close> with the
  control vector \<^verbatim>\<open>[NaN, NaN, NaN, NaN]\<close>.
\<close>

theorem step_NaN_height_witness:
  "nanLaws exactArith exactMath \<and> jnan exactArith (js_y nanState) \<and>
   jnan exactArith (js_y (js_step exactArith exactMath nanState (NaN, NaN, NaN, NaN)
                            js_noWind (Fin (1 / 120)))) \<and>
   \<not> jle exactArith (jnum exactArith 0)
       (js_y (js_step exactArith exactMath nanState (NaN, NaN, NaN, NaN)
                js_noWind (Fin (1 / 120))))"
proof -
  have n: "jnan exactArith (js_y nanState)"
    by (simp add: nanState_def exactArith_def arithOf_simps)
  from step_NaN_height [OF nanLaws_exact n] nanLaws_exact n show ?thesis by blast
qed

subsection \<open>C4: motor speeds\<close>

text \<open>
  C4. The claim is that each motor speed returned by \<^verbatim>\<open>allocateMotors\<close>, and so each
  entry of the stored motor speeds after a step, lies in \<open>[0, wMax]\<close>. The clamp is
  \<^verbatim>\<open>Math.max(lo, Math.min(hi, v))\<close>, which returns \<^verbatim>\<open>NaN\<close> for \<^verbatim>\<open>NaN\<close>: when the thrust
  input is \<^verbatim>\<open>NaN\<close>, each of the four speeds is \<^verbatim>\<open>NaN\<close> and lies in no interval, and the
  step stores these four speeds.
\<close>

theorem motor_speeds_NaN:
  assumes "nanLaws A M" and "jnan A T"
  shows "list_all (\<lambda>w. jnan A w \<and> \<not> js_within A (jnum A 0) (jnum A (p_wMax PARAMS)) w)
           (js_allocateMotors A M T tauPhi tauTheta tauPsi) \<and>
         js_motors (js_step A M s (T, tauPhi, tauTheta, tauPsi) env dt) =
           js_allocateMotors A M T tauPhi tauTheta tauPsi"
proof -
  have "list_all (jnan A) (js_allocateMotors A M T tauPhi tauTheta tauPsi)"
    using assms by (rule js_allocateMotors_nan)
  hence "list_all (\<lambda>w. jnan A w \<and> \<not> js_within A (jnum A 0) (jnum A (p_wMax PARAMS)) w)
           (js_allocateMotors A M T tauPhi tauTheta tauPsi)"
    by (simp add: list_all_iff nan_within [OF assms(1)])
  thus ?thesis by (simp add: js_step_motors)
qed

text \<open>The eleventh step of the application as shipped.\<close>

theorem motor_speeds_NaN_witness:
  "nanLaws exactArith exactMath \<and> jnan exactArith NaN \<and>
   list_all (\<lambda>w. jnan exactArith w \<and>
                \<not> js_within exactArith (jnum exactArith 0) (jnum exactArith (p_wMax PARAMS)) w)
     (js_allocateMotors exactArith exactMath NaN NaN NaN NaN) \<and>
   js_motors (js_step exactArith exactMath nanState (NaN, NaN, NaN, NaN) js_noWind (Fin (1 / 120)))
     = js_allocateMotors exactArith exactMath NaN NaN NaN NaN"
proof -
  have n: "jnan exactArith NaN"
    by (simp add: exactArith_def arithOf_simps)
  from motor_speeds_NaN [OF nanLaws_exact n] nanLaws_exact n show ?thesis by blast
qed

subsection \<open>C5: limits on thrust and desired attitude\<close>

text \<open>
  C5. The claim is that every controller computes a thrust in \<open>[0, 4 m g]\<close> and desired
  roll and pitch of at most \<open>0.6\<close> rad in absolute value. The limits are enforced by the
  same clamp, which returns \<^verbatim>\<open>NaN\<close> for \<^verbatim>\<open>NaN\<close>: when the vertical speed of the state is
  \<^verbatim>\<open>NaN\<close>, the thrust, the desired roll and the desired pitch that the PID controller
  computes are \<^verbatim>\<open>NaN\<close>, the first entry of the array it returns is \<^verbatim>\<open>NaN\<close>, and it is
  not in \<open>[0, 4 m g]\<close>.
\<close>

theorem computePID_NaN:
  assumes "nanLaws A M" and "jnan A (js_vy state)"
  shows "jnan A (jl_T (fst (js_computePID_locals A M ist state target G dt))) \<and>
         jnan A (jl_phi_des (fst (js_computePID_locals A M ist state target G dt))) \<and>
         jnan A (jl_theta_des (fst (js_computePID_locals A M ist state target G dt))) \<and>
         jnan A (fst (fst (js_computePID A M ist state target G dt))) \<and>
         \<not> js_within A (jnum A 0) (jmul A (jmul A (jnum A (p_m PARAMS)) (jnum A (p_g PARAMS))) (jnum A 4))
             (fst (fst (js_computePID A M ist state target G dt)))"
proof -
  let ?l = "fst (js_computePID_locals A M ist state target G dt)"
  have ay: "jnan A (jl_ay_des ?l)"
    unfolding js_computePID_ay using assms(2) by (simp add: nanLawsD [OF assms(1)])
  have "case js_thrustAttitude A M state (jl_ax_des ?l) (jl_ay_des ?l) (jl_az_des ?l) of
          (T, phi_des, theta_des) \<Rightarrow> jnan A T \<and> jnan A phi_des \<and> jnan A theta_des"
    using assms(1) ay by (rule js_thrustAttitude_nan)
  hence t: "jnan A (jl_T ?l) \<and> jnan A (jl_phi_des ?l) \<and> jnan A (jl_theta_des ?l)"
    unfolding js_computePID_thrustAttitude [symmetric] by simp
  thus ?thesis by (simp add: js_computePID_T nan_within [OF assms(1)])
qed

text \<open>
  The eleventh controller call of the application as shipped: default gains, the state
  \<open>nanState\<close>, a point of the circle as target.
\<close>

theorem computePID_NaN_witness:
  "nanLaws exactArith exactMath \<and> jnan exactArith (js_vy nanState) \<and>
   jnan exactArith (fst (fst (js_computePID exactArith exactMath (js_resetInternal exactArith)
      nanState (js_mkSetpoint (Fin 2) (Fin 3) (Fin 0) (Fin 0) (Fin 0) (Fin 1) (Fin 0))
      (js_defaultGains_PID exactArith) (Fin (1 / 120)))))"
proof -
  have n: "jnan exactArith (js_vy nanState)"
    by (simp add: nanState_def exactArith_def arithOf_simps)
  from computePID_NaN [OF nanLaws_exact n] nanLaws_exact n show ?thesis by blast
qed

subsection \<open>C7: sliding mode on the surface with no boundary layer\<close>

text \<open>
  C7, as amended. For the SMC controller with boundary-layer thickness zero, whenever the
  sliding surface value \<open>s = (v_ref - v) + \<lambda> (x_ref - x)\<close> of a translational axis is zero,
  the switching term \<open>\<eta> sat (s, 0)\<close> of that axis is zero (\<open>sign 0 = 0\<close>) and the desired
  acceleration of the axis is the equivalent-control term \<open>\<lambda> (v_ref - v)\<close>.
\<close>

theorem smc_on_surface:
  "(smc_phi_xy G = 0 \<and> int_s_x (snd (computeSMC_locals ist s tg G dt)) = 0 \<longrightarrow>
      l_ax_des (fst (computeSMC_locals ist s tg G dt)) =
        smc_lambda_xy G * (orZero (target_vx tg) - state_vx s)) \<and>
   (smc_phi_z G = 0 \<and> int_s_y (snd (computeSMC_locals ist s tg G dt)) = 0 \<longrightarrow>
      l_ay_des (fst (computeSMC_locals ist s tg G dt)) =
        smc_lambda_z G * (orZero (target_vy tg) - state_vy s)) \<and>
   (smc_phi_xy G = 0 \<and> int_s_z (snd (computeSMC_locals ist s tg G dt)) = 0 \<longrightarrow>
      l_az_des (fst (computeSMC_locals ist s tg G dt)) =
        smc_lambda_xy G * (orZero (target_vz tg) - state_vz s)) \<and>
   int_s_x (snd (computeSMC_locals ist s tg G dt)) =
     (orZero (target_vx tg) - state_vx s) + smc_lambda_xy G * (target_x tg - state_x s) \<and>
   int_s_y (snd (computeSMC_locals ist s tg G dt)) =
     (orZero (target_vy tg) - state_vy s) + smc_lambda_z G * (target_y tg - state_y s) \<and>
   int_s_z (snd (computeSMC_locals ist s tg G dt)) =
     (orZero (target_vz tg) - state_vz s) + smc_lambda_xy G * (target_z tg - state_z s)"
proof -
  have x: "l_ax_des (fst (computeSMC_locals ist s tg G dt)) =
        smc_lambda_xy G * (orZero (target_vx tg) - state_vx s)"
    if "smc_phi_xy G = 0" "int_s_x (snd (computeSMC_locals ist s tg G dt)) = 0"
    by (subst computeSMC_outer(4)) (simp only: that sat_zero order_refl mult_zero_right add_0_right)
  have y: "l_ay_des (fst (computeSMC_locals ist s tg G dt)) =
        smc_lambda_z G * (orZero (target_vy tg) - state_vy s)"
    if "smc_phi_z G = 0" "int_s_y (snd (computeSMC_locals ist s tg G dt)) = 0"
    by (subst computeSMC_outer(5)) (simp only: that sat_zero order_refl mult_zero_right add_0_right)
  have z: "l_az_des (fst (computeSMC_locals ist s tg G dt)) =
        smc_lambda_xy G * (orZero (target_vz tg) - state_vz s)"
    if "smc_phi_xy G = 0" "int_s_z (snd (computeSMC_locals ist s tg G dt)) = 0"
    by (subst computeSMC_outer(6)) (simp only: that sat_zero order_refl mult_zero_right add_0_right)
  from x y z computeSMC_outer(1-3)[of ist s tg G dt] show ?thesis by blast
qed

text \<open>
  Default gains (\<open>\<lambda> = 2.5\<close>, \<open>\<eta> = 3\<close>, no boundary layer), the vehicle at rest at the
  origin, the target one metre behind in \<open>x\<close> and moving at 2.5 m/s: all three surfaces
  are zero.
\<close>

theorem smc_on_surface_witness:
  "smc_phi_xy defaultGains_SMC = 0 \<and> smc_phi_z defaultGains_SMC = 0 \<and>
   int_s_x (snd (computeSMC_locals resetInternal createState (mkSetpoint (- 1) 0 0 2.5 0 0 0)
      defaultGains_SMC (1 / 120))) = 0 \<and>
   l_ax_des (fst (computeSMC_locals resetInternal createState (mkSetpoint (- 1) 0 0 2.5 0 0 0)
      defaultGains_SMC (1 / 120))) = 2.5 * 2.5 \<and>
   l_ay_des (fst (computeSMC_locals resetInternal createState (mkSetpoint (- 1) 0 0 2.5 0 0 0)
      defaultGains_SMC (1 / 120))) = 0 \<and>
   l_az_des (fst (computeSMC_locals resetInternal createState (mkSetpoint (- 1) 0 0 2.5 0 0 0)
      defaultGains_SMC (1 / 120))) = 0"
  using smc_on_surface[of defaultGains_SMC resetInternal createState
      "mkSetpoint (- 1) 0 0 2.5 0 0 0" "1 / 120"] smc_example
  by (simp add: defaultGains_SMC_def createState_def mkSetpoint_def orZero_def)

text \<open>
  At the same input the claim as stated fails: the surface is zero and the desired
  acceleration in \<open>x\<close> is \<open>2.5 \<cdot> 2.5\<close>, not zero.
\<close>

theorem smc_on_surface_counterexample:
  "smc_phi_xy defaultGains_SMC = 0 \<and>
   int_s_x (snd (computeSMC_locals resetInternal createState (mkSetpoint (- 1) 0 0 2.5 0 0 0)
      defaultGains_SMC (1 / 120))) = 0 \<and>
   l_ax_des (fst (computeSMC_locals resetInternal createState (mkSetpoint (- 1) 0 0 2.5 0 0 0)
      defaultGains_SMC (1 / 120))) = 25 / 4"
  by (simp add: computeSMC_outer sat_def sign_def createState_def mkSetpoint_def
        defaultGains_SMC_def orZero_def)

subsection \<open>C8: unknown algorithm and pattern ids\<close>

text \<open>
  C8, as amended. Neither the reference generator nor the controller dispatch keeps or
  consults a previous configuration. \<^verbatim>\<open>evaluate\<close> with a pattern id that is not in the
  table returns the fixed setpoint \<open>(0, 3, 0)\<close> with zero velocity and yaw, whatever was
  evaluated before (and raises for an id that names a member every object inherits);
  \<^verbatim>\<open>compute\<close> with an algorithm id other than PID, SMC, STS and MPC returns no control
  vector and leaves the internal state as it was.
\<close>

theorem unknown_ids:
  "(patternKey \<notin> set patternKeys \<and> patternKey \<notin> set objectPrototypeKeys \<longrightarrow>
      evaluate pats patternKey t = Inr (mkSetpoint 0 3 0 0 0 0 0)) \<and>
   (patternKey \<in> set objectPrototypeKeys \<longrightarrow> evaluate pats patternKey t = Inl TypeError) \<and>
   (algo \<noteq> ''PID'' \<and> algo \<noteq> ''SMC'' \<and> algo \<noteq> ''STS'' \<and> algo \<noteq> ''MPC'' \<longrightarrow>
      compute algo ist s tg gains dt fn time = Inr (None, ist))"
  by (auto simp: evaluate_def patternKeys_def objectPrototypeKeys_def compute_def)

theorem unknown_ids_witness:
  "evaluate patterns ''BOGUS'' 5 = Inr (mkSetpoint 0 3 0 0 0 0 0) \<and>
   evaluate patterns ''toString'' 5 = Inl TypeError \<and>
   compute ''BOGUS'' resetInternal createState (mkSetpoint 0 1 0 0 0 0 0)
     (PIDGains defaultGains_PID) (1 / 120) None 0 = Inr (None, resetInternal)"
  using unknown_ids[of "''BOGUS''" patterns 5 "''BOGUS''" resetInternal createState
      "mkSetpoint 0 1 0 0 0 0 0" "PIDGains defaultGains_PID" "1 / 120" None 0]
    unknown_ids[of "''toString''" patterns 5 "''BOGUS''" resetInternal createState
      "mkSetpoint 0 1 0 0 0 0 0" "PIDGains defaultGains_PID" "1 / 120" None 0]
  by (simp add: patternKeys_def objectPrototypeKeys_def)

text \<open>
  The claim as stated fails: after the step pattern at time 0 (setpoint height 1) an
  unknown id gives height 3, not the height 1 that the persisting reading gives; and after
  a PID call an unknown algorithm id gives no control vector, not the PID one.
\<close>

theorem unknown_ids_counterexample:
  "evaluate patterns ''BOGUS'' 0 = Inr (mkSetpoint 0 3 0 0 0 0 0) \<and>
   evaluate_persisting patterns ''STEP'' ''BOGUS'' 0 = Inr (mkSetpoint 0 1 0 0 0 0 0) \<and>
   compute ''BOGUS'' resetInternal createState (mkSetpoint 0 1 0 0 0 0 0)
     (PIDGains defaultGains_PID) (1 / 120) None 0 = Inr (None, resetInternal) \<and>
   compute ''PID'' resetInternal createState (mkSetpoint 0 1 0 0 0 0 0)
     (PIDGains defaultGains_PID) (1 / 120) None 0 =
       Inr (Some (21377 / 2400, 0, 0, 0),
            resetInternal\<lparr> int_iEy := 1 / 120, int_s_y := 1, int_T := 21377 / 2400 \<rparr>)"
  by (simp add: evaluate_def evaluate_persisting_def patternKeys_def objectPrototypeKeys_def
        fn_STEP_def patterns_def compute_def computePID_example)


subsection \<open>C10: the custom waypoint walker and time\<close>





end
